theory Spec2Isabelle
  imports Complex_Main "HOL-Library.Product_Lexorder" "HOL-Library.Multiset"
begin

section \<open>SQL values and relational operators\<close>

text \<open>
  The pipeline of the repository is a sequence of BigQuery statements held in Python
  functions (\<^verbatim>\<open>processing.py\<close>, \<^verbatim>\<open>analytics.py\<close>). A table is a list of rows, in the
  order in which the engine delivers them; a nullable column is an \<open>option\<close>; every common
  table expression of a statement is one definition below, under its own name.

  A \<open>DATE\<close> is the triple (year, month, day) under the lexicographic order.
  A \<open>FLOAT64\<close> is a real number: sums, quotients and \<open>ROUND\<close> are exact, the binary
  rounding of the machine format is not part of the model.  A \<open>STRING\<close> is a list of
  \<open>char\<close>, one per character; characters outside ASCII stand as their UTF-8 bytes.
\<close>

type_synonym date = "nat \<times> nat \<times> nat"
type_synonym float64 = real

record keyed =
  event_date :: date
  country :: string

definition same_key :: "'a keyed_scheme \<Rightarrow> 'b keyed_scheme \<Rightarrow> bool" where
  "same_key a b = (event_date a = event_date b \<and> country a = country b)"

text \<open>\<open>COALESCE\<close>: the first argument that is not \<open>NULL\<close>.\<close>

fun coalesce :: "'a option list \<Rightarrow> 'a option" where
  "coalesce [] = None"
| "coalesce (Some v # xs) = Some v"
| "coalesce (None # xs) = coalesce xs"

text \<open>\<open>a JOIN b ON p\<close> and \<open>a LEFT JOIN b ON p\<close>.\<close>

definition inner_join :: "('a \<Rightarrow> 'b \<Rightarrow> bool) \<Rightarrow> 'a list \<Rightarrow> 'b list \<Rightarrow> ('a \<times> 'b) list" where
  "inner_join p ls rs = concat (map (\<lambda>l. map (Pair l) (filter (p l) rs)) ls)"

definition left_join :: "('a \<Rightarrow> 'b \<Rightarrow> bool) \<Rightarrow> 'a list \<Rightarrow> 'b list \<Rightarrow> ('a \<times> 'b option) list" where
  "left_join p ls rs =
     concat (map (\<lambda>l. case filter (p l) rs of
                          [] \<Rightarrow> [(l, None)]
                        | m # ms \<Rightarrow> map (\<lambda>r. (l, Some r)) (m # ms)) ls)"

text \<open>\<open>SELECT MAX(event_date)\<close>: \<open>NULL\<close> over no rows.\<close>

fun max_date :: "date list \<Rightarrow> date option" where
  "max_date [] = None"
| "max_date (d # ds) = Some (fold max ds d)"

text \<open>
  \<open>ORDER BY k ASC\<close> is the stable insertion sort \<open>sort_key k\<close> of the library, and
  \<open>ORDER BY k DESC\<close> its mirror image: rows with equal keys stay in the order in which
  they were delivered.
\<close>

definition order_by_desc :: "('a \<Rightarrow> 'k::linorder) \<Rightarrow> 'a list \<Rightarrow> 'a list" where
  "order_by_desc k xs = rev (sort_key k (rev xs))"

text \<open>
  SQL itself leaves the order of rows with equal keys to the engine.  Where that order
  reaches a column that a property below speaks of (the arrays built by
  \<open>ARRAY_AGG(... ORDER BY ...)\<close> and the text built from them), the engine's choice is a
  parameter of the model: a rank \<open>tie\<close> of the rows, which the sort uses as its second
  key.  Every order of the rows with equal first key is the order of some rank.
\<close>

definition order_by_ties :: "('a \<Rightarrow> 'k::linorder) \<Rightarrow> ('a \<Rightarrow> nat) \<Rightarrow> 'a list \<Rightarrow> 'a list" where
  "order_by_ties k tie xs = sort_key (\<lambda>x. (k x, tie x)) xs"

definition order_by_desc_ties :: "('a \<Rightarrow> 'k::linorder) \<Rightarrow> ('a \<Rightarrow> nat) \<Rightarrow> 'a list \<Rightarrow> 'a list" where
  "order_by_desc_ties k tie xs = rev (sort_key (\<lambda>x. (k x, tie x)) (rev xs))"

text \<open>\<open>ARRAY_TO_STRING(xs, sep)\<close>: the elements that are not \<open>NULL\<close>, with \<open>sep\<close> between them.\<close>

fun join_strings :: "string list \<Rightarrow> string \<Rightarrow> string" where
  "join_strings [] sep = []"
| "join_strings [x] sep = x"
| "join_strings (x # y # ys) sep = x @ sep @ join_strings (y # ys) sep"

definition array_to_string :: "string option list \<Rightarrow> string \<Rightarrow> string" where
  "array_to_string xs sep = join_strings (concat (map (\<lambda>x. case x of None \<Rightarrow> [] | Some v \<Rightarrow> [v]) xs)) sep"

text \<open>\<open>CONCAT\<close>: \<open>NULL\<close> as soon as one argument is \<open>NULL\<close>.\<close>

fun concat_null :: "string option list \<Rightarrow> string option" where
  "concat_null [] = Some []"
| "concat_null (None # xs) = None"
| "concat_null (Some s # xs) = map_option (\<lambda>r. s @ r) (concat_null xs)"

text \<open>The line feed, \<open>CHR(10)\<close> or \<open>\n\<close> in a string literal.\<close>

definition nl :: string where
  "nl = [CHR 0x0A]"

section \<open>The generative model\<close>

text \<open>
  \<open>ML.GENERATE_TEXT\<close> is a remote model: the pipeline sends it a table of
  (event_date, country, prompt) rows with a \<open>STRUCT\<close> of options, and reads one answer row
  per prompt row.  The model is the parameter \<open>gen\<close> of every stage that calls it.  Of the
  answer row \<open>t\<close> the statements read the column \<open>ml_generate_text_llm_result\<close> and the
  whole row as JSON (\<open>SAFE.PARSE_JSON(TO_JSON_STRING(t))\<close>, here \<open>t_json\<close>).
\<close>

datatype json =
    JNull
  | JBool bool
  | JNum string
  | JStr string
  | JArr "json list"
  | JObj "(string \<times> json) list"

record gen_params =
  temperature :: float64
  max_output_tokens :: nat
  flatten_json_output :: bool

record prompt_row = keyed +
  prompt :: "string option"

record gen_out =
  ml_generate_text_llm_result :: "string option"
  t_json :: "json option"

type_synonym generator = "gen_params \<Rightarrow> prompt_row \<Rightarrow> gen_out"

text \<open>The answer table: the columns of the prompt row pass through.\<close>

definition generate_text :: "generator \<Rightarrow> gen_params \<Rightarrow> prompt_row list \<Rightarrow> (prompt_row \<times> gen_out) list" where
  "generate_text gen ps qs = map (\<lambda>q. (q, gen ps q)) qs"

section \<open>Tables\<close>

text \<open>
  The stored tables that the modelled statements read or write, each with the columns that
  some modelled statement reads.  \<open>daily_country_topics\<close> and \<open>news_embeddings\<close> share
  the columns (event_date, country, topic_doc).
\<close>

record briefing_row = keyed +
  briefing_text :: string

record doc_row = keyed +
  topic_doc :: "string option"

record dct_row = doc_row +
  headline_count :: nat
  avg_tone :: "float64 option"

record ent_row = keyed +
  top_themes :: "(string \<times> nat) list"
  top_people :: "(string \<times> nat) list option"


record 'v emb_row = doc_row +
  embedding :: 'v
  emb_id :: string

record enriched_row = keyed +
  themes :: "string list"
  persons :: "string list"

text \<open>
  \<open>daily_analogs_flat\<close>, one row per retained analog, and \<open>daily_analogs\<close>, one row per
  (event_date, country) with the array of \<open>STRUCT(past_date, snippet, distance)\<close>.
\<close>

record analog_result = keyed +
  past_date :: date
  snippet :: "string option"
  distance :: float64

record analog =
  a_past_date :: date
  a_snippet :: "string option"
  a_distance :: float64

record daily_analogs_row = keyed +
  analogs :: "analog list"
  analogs_txt :: string

text \<open>The key columns of a row, as a row of their own.\<close>

definition key_of :: "'a keyed_scheme \<Rightarrow> keyed" where
  "key_of r = \<lparr>event_date = event_date r, country = country r\<rparr>"

text \<open>The defaults of \<^verbatim>\<open>config.py\<close>, which are also the defaults of the stages' arguments.\<close>

definition TOP_N :: nat where "TOP_N = 80"
definition ANALOG_SNIP_CHARS :: nat where "ANALOG_SNIP_CHARS = 400"
definition ANALOG_TOPK :: nat where "ANALOG_TOPK = 5"
definition CONTEXT_CHARS :: nat where "CONTEXT_CHARS = 700"
definition MAX_TOKENS :: nat where "MAX_TOKENS = 300"
definition TEMP :: float64 where "TEMP = 2 / 10"

section \<open>Entity Ranker: \<open>create_daily_top_entities\<close>\<close>

text \<open>\<open>LOWER\<close> on the letters A to Z, and \<open>SPLIT(t, ',')[OFFSET(0)]\<close>.\<close>

definition lower_char :: "char \<Rightarrow> char" where
  "lower_char c =
     (case map_of (zip ''ABCDEFGHIJKLMNOPQRSTUVWXYZ'' ''abcdefghijklmnopqrstuvwxyz'') c of
        Some l \<Rightarrow> l
      | None \<Rightarrow> c)"

definition lower :: "string \<Rightarrow> string" where
  "lower s = map lower_char s"

definition first_segment :: "string \<Rightarrow> string" where
  "first_segment t = takeWhile (\<lambda>c. c \<noteq> CHR '','') t"

record e_row = keyed +
  theme :: string
  person :: string

text \<open>
  The expression \<open>e\<close>: the comma joins with \<open>UNNEST(themes) t\<close> and \<open>UNNEST(persons) p\<close>
  give one row per pair of a theme and a person of the same event.  The argument
  \<open>cutoff\<close> is the value of \<open>DATE_SUB(CURRENT_DATE(), INTERVAL 7 DAY)\<close> on the day of the run.
\<close>

definition e :: "date \<Rightarrow> enriched_row list \<Rightarrow> e_row list" where
  "e cutoff enriched =
     concat (map (\<lambda>r.
        concat (map (\<lambda>t.
           map (\<lambda>p. \<lparr>event_date = event_date r, country = country r,
                      theme = lower (first_segment t), person = lower (first_segment p)\<rparr>)
             (persons r))
          (themes r)))
       (filter (\<lambda>r. cutoff \<le> event_date r) enriched))"









section \<open>Analog Retriever\<close>

subsection \<open>\<open>create_today_for_analogs\<close>\<close>

definition create_today_for_analogs :: "dct_row list \<Rightarrow> nat \<Rightarrow> keyed list" where
  "create_today_for_analogs dct top_n =
     map key_of
       (take top_n (order_by_desc headline_count
          (filter (\<lambda>r. Some (event_date r) = max_date (map event_date dct)) dct)))"

subsection \<open>\<open>fn_similar_to_day\<close>\<close>

text \<open>
  \<open>VECTOR_SEARCH\<close> belongs to the engine: given the table, a query vector and \<open>top_k\<close>, it
  returns base rows with their cosine distance to the query.  The model takes it as the
  parameter \<open>vs\<close> and asks nothing of it.
\<close>

type_synonym 'v vector_search = "'v emb_row list \<Rightarrow> 'v \<Rightarrow> nat \<Rightarrow> ('v emb_row \<times> float64) list"

record candidate = doc_row +
  cand_distance :: float64
  cand_id :: string

text \<open>
  The anchor is one row of the table with the given country and day (\<open>LIMIT 1\<close>); without
  such a row the query table of the search is empty and so is the result.
\<close>

definition fn_similar_to_day :: "'v vector_search \<Rightarrow> 'v emb_row list \<Rightarrow> string \<Rightarrow> date \<Rightarrow> candidate list" where
  "fn_similar_to_day vs news_embeddings country_code day =
     (case filter (\<lambda>r. country r = country_code \<and> event_date r = day) news_embeddings of
        [] \<Rightarrow> []
      | anchor # _ \<Rightarrow>
          map (\<lambda>(base, d).
                 \<lparr>event_date = event_date base, country = country base, topic_doc = topic_doc base,
                  cand_distance = d, cand_id = emb_id base\<rparr>)
            (filter (\<lambda>(base, d). event_date base \<noteq> day)
               (vs news_embeddings (embedding anchor) 10)))"

subsection \<open>\<open>REGEXP_REPLACE(topic_doc, r'https?://\S+', '')\<close>\<close>

definition is_space :: "char \<Rightarrow> bool" where
  "is_space c = (c \<in> set [CHR 0x09, CHR 0x0A, CHR 0x0C, CHR 0x0D, CHR '' ''])"

text \<open>The length of a match of \<open>https?://\S+\<close> at the head of \<open>s\<close>, if there is one.\<close>

definition url_match_length :: "string \<Rightarrow> nat option" where
  "url_match_length s =
     (let n = (if take 7 s = ''http://'' then Some 7
               else if take 8 s = ''https://'' then Some 8 else None)
      in case n of
           None \<Rightarrow> None
         | Some k \<Rightarrow>
             (let run = takeWhile (\<lambda>c. \<not> is_space c) (drop k s)
              in if run = [] then None else Some (k + length run)))"

text \<open>
  All matches are removed, from left to right.  The first argument counts the characters
  of a match that are still to be skipped.
\<close>

fun strip_from :: "nat \<Rightarrow> string \<Rightarrow> string" where
  "strip_from k [] = []"
| "strip_from (Suc k) (c # cs) = strip_from k cs"
| "strip_from 0 (c # cs) =
     (case url_match_length (c # cs) of
        Some n \<Rightarrow> strip_from (n - 1) cs
      | None \<Rightarrow> c # strip_from 0 cs)"

definition strip_urls :: "string \<Rightarrow> string" where
  "strip_urls s = strip_from 0 s"

text \<open>\<open>SUBSTR(REGEXP_REPLACE(topic_doc, r'https?://\S+', ''), 1, n)\<close>.\<close>

definition excerpt :: "nat \<Rightarrow> string option \<Rightarrow> string option" where
  "excerpt n doc = map_option (\<lambda>d. take n (strip_urls d)) doc"

subsection \<open>\<open>run_analog_searches\<close>\<close>

text \<open>
  The query that the loop sends for one row of \<open>today_for_analogs\<close>.  In its \<open>WHERE\<close>
  clause \<open>event_date\<close> is the column of the table function, the date of the candidate.
\<close>

definition sim_query ::
  "'v vector_search \<Rightarrow> 'v emb_row list \<Rightarrow> nat \<Rightarrow> nat \<Rightarrow> string \<Rightarrow> date \<Rightarrow> analog_result list" where
  "sim_query vs news_embeddings analog_snip_chars analog_topk country' event_date' =
     map (\<lambda>c. \<lparr>event_date = event_date', country = country',
                past_date = event_date c,
                snippet = excerpt analog_snip_chars (topic_doc c),
                distance = cand_distance c\<rparr>)
       (take analog_topk (sort_key cand_distance
          (filter (\<lambda>c. event_date c < event_date')
             (fn_similar_to_day vs news_embeddings country' event_date'))))"

definition run_analog_searches ::
  "'v vector_search \<Rightarrow> 'v emb_row list \<Rightarrow> keyed list \<Rightarrow> nat \<Rightarrow> nat \<Rightarrow> analog_result list" where
  "run_analog_searches vs news_embeddings today_for_analogs analog_snip_chars analog_topk =
     concat (map (\<lambda>row. sim_query vs news_embeddings analog_snip_chars analog_topk
                           (country row) (event_date row))
               today_for_analogs)"

subsection \<open>\<open>save_daily_analogs\<close>\<close>

text \<open>\<open>CAST(d AS STRING)\<close> of a date: \<open>YYYY-MM-DD\<close>.\<close>

definition digit_char :: "nat \<Rightarrow> char" where
  "digit_char n = ''0123456789'' ! (n mod 10)"

definition date_string :: "date \<Rightarrow> string" where
  "date_string d =
     (case d of (y, m, dd) \<Rightarrow>
        [digit_char (y div 1000), digit_char (y div 100), digit_char (y div 10), digit_char y]
        @ ''-'' @ [digit_char (m div 10), digit_char m]
        @ ''-'' @ [digit_char (dd div 10), digit_char dd])"

definition analog_line :: "analog \<Rightarrow> string option" where
  "analog_line a = concat_null [Some (date_string (a_past_date a)), Some '': '', a_snippet a]"

text \<open>
  The data frame is loaded into \<open>daily_analogs_flat\<close> as it is (the two date columns are
  only converted to dates), and \<open>daily_analogs\<close> is computed from that table; the result
  of the model is the second table.  The statement sorts twice by distance: in
  \<open>ARRAY_AGG(... ORDER BY distance ASC LIMIT k)\<close> and in the \<open>ORDER BY a.distance ASC\<close> of
  the text.  The engine's order of equal distances in the two sorts is given by the ranks
  \<open>agg_order\<close> and \<open>txt_order\<close>.
\<close>

definition save_daily_analogs ::
  "(analog \<Rightarrow> nat) \<Rightarrow> (analog \<Rightarrow> nat) \<Rightarrow> analog_result list \<Rightarrow> nat \<Rightarrow> daily_analogs_row list" where
  "save_daily_analogs agg_order txt_order df analog_topk =
     map (\<lambda>k.
            let ranked = take analog_topk (order_by_ties a_distance agg_order
                  (map (\<lambda>r. \<lparr>a_past_date = past_date r, a_snippet = snippet r, a_distance = distance r\<rparr>)
                     (filter (\<lambda>r. key_of r = k) df)))
            in \<lparr>event_date = event_date k, country = country k,
                analogs = ranked,
                analogs_txt = array_to_string
                  (map analog_line (order_by_ties a_distance txt_order ranked)) (nl @ ''- '')\<rparr>)
       (remdups (map key_of df))"

section \<open>Narrative Generator: \<open>create_daily_briefings\<close>\<close>

subsection \<open>\<open>to_summarize\<close> and \<open>normalized\<close>\<close>

record to_summarize_row = keyed +
  ts_headline_count :: nat
  ctx :: "string option"
  themes_top :: string
  people_top :: string
  ts_analogs_txt :: "string option"

text \<open>
  The two left joins, then \<open>ORDER BY dct.headline_count DESC LIMIT top_n\<close>.  \<open>UNNEST\<close> of
  a \<open>NULL\<close> array has no rows, so a country without entities has empty lists.
\<close>

definition to_summarize ::
  "dct_row list \<Rightarrow> ent_row list \<Rightarrow> daily_analogs_row list \<Rightarrow> nat \<Rightarrow> nat \<Rightarrow> to_summarize_row list" where
  "to_summarize dct ents daily_analogs top_n context_chars =
     map (\<lambda>((d, ent), an).
            \<lparr>event_date = event_date d, country = country d,
             ts_headline_count = headline_count d,
             ctx = excerpt context_chars (topic_doc d),
             themes_top = array_to_string
               (map (\<lambda>t. Some (fst t)) (case ent of None \<Rightarrow> [] | Some en \<Rightarrow> top_themes en)) '', '',
             people_top = array_to_string
               (map (\<lambda>p. Some (fst p))
                  (case ent of None \<Rightarrow> []
                   | Some en \<Rightarrow> (case top_people en of None \<Rightarrow> [] | Some ps \<Rightarrow> ps))) '', '',
             ts_analogs_txt = map_option analogs_txt an\<rparr>)
       (take top_n (order_by_desc (\<lambda>((d, ent), an). headline_count d)
          (left_join (\<lambda>(d, ent) an. same_key d an)
             (left_join same_key
                (filter (\<lambda>r. Some (event_date r) = max_date (map event_date dct)) dct) ents)
             daily_analogs)))"

text \<open>
  The expressions \<open>themes_nice\<close> and \<open>people_nice\<close> of \<open>normalized\<close> clean the two lists for
  the prompt (\<open>INITCAP\<close>, \<open>TRIM\<close> and a chain of \<open>REGEXP_REPLACE\<close>).  They feed the prompt
  and nothing else, and stand here as the two functions \<open>nice_themes\<close> and \<open>nice_people\<close>,
  applied to \<open>COALESCE(themes_top, '')\<close> and \<open>COALESCE(people_top, '')\<close>.
\<close>

record normalized_row = keyed +
  nz_headline_count :: nat
  nz_ctx :: "string option"
  nz_analogs_txt :: string
  themes_nice :: string
  people_nice :: string

definition normalized ::
  "(string \<Rightarrow> string) \<Rightarrow> (string \<Rightarrow> string) \<Rightarrow> to_summarize_row list \<Rightarrow> normalized_row list" where
  "normalized nice_themes nice_people rows =
     map (\<lambda>r. \<lparr>event_date = event_date r, country = country r,
                nz_headline_count = ts_headline_count r,
                nz_ctx = ctx r,
                nz_analogs_txt = (case coalesce [ts_analogs_txt r, Some ''None''] of
                                    Some v \<Rightarrow> v | None \<Rightarrow> []),
                themes_nice = nice_themes (themes_top r),
                people_nice = nice_people (people_top r)\<rparr>) rows"

subsection \<open>The prompt and the call\<close>

definition dq :: string where
  "dq = [CHR 0x22]"

definition briefing_prompt :: "normalized_row \<Rightarrow> prompt_row" where
  "briefing_prompt r =
     \<lparr>event_date = event_date r, country = country r,
      prompt = concat_null
        [Some ''You are a news analyst. Country is an ISO code.'', Some nl,
         Some (''Fill in this EXACT template with '' @ [CHR 0xE2, CHR 0x89, CHR 0xA4]
               @ ''90 words, no intro/outro:''), Some nl,
         Some ''[What happened] '', Some nl,
         Some ''[Key drivers] '', Some nl,
         Some ''[Impact] '', Some nl,
         Some ''[Watch next] '', Some nl,
         Some ''Rules:'', Some nl,
         Some ''- Only summarize events for ISO code '', Some (country r), Some ''.'', Some nl,
         Some (''- Use at least TWO items from '' @ dq @ ''Top themes (readable)'' @ dq
               @ '' and at least ONE name from '' @ dq @ ''Top people'' @ dq @ ''.''), Some nl,
         Some ''- Do NOT output raw taxonomy tokens. Use natural English phrases.'', Some nl,
         Some ''- Do NOT mention event codes. Avoid boilerplate.'', Some nl,
         Some ''- Include at least one concrete number if available.'', Some nl,
         Some ''- ALWAYS include all 4 sections.'', Some nl,
         Some (''- Limit each section to 1'' @ [CHR 0xE2, CHR 0x80, CHR 0x93]
               @ ''2 sentences. Be concise and specific.''), Some nl,
         Some ''Top themes (readable): '', coalesce [Some (themes_nice r), Some ''none''], Some nl,
         Some ''Top people: '', coalesce [Some (people_nice r), Some ''none''], Some nl,
         Some ''Context: '', nz_ctx r, Some nl,
         Some ''Relevant past events to consider (analog history):'', Some nl,
         Some (nz_analogs_txt r)]\<rparr>"

record llm_answer = keyed +
  la_llm_text :: "string option"
  j :: "json option"

definition llm :: "generator \<Rightarrow> float64 \<Rightarrow> nat \<Rightarrow> normalized_row list \<Rightarrow> llm_answer list" where
  "llm gen temp max_tokens rows =
     map (\<lambda>(s, (q, t)). \<lparr>event_date = event_date s, country = country s,
                          la_llm_text = ml_generate_text_llm_result t, j = t_json t\<rparr>)
       (inner_join (\<lambda>s (q, t). same_key s q) rows
          (generate_text gen
             \<lparr>temperature = temp, max_output_tokens = max_tokens, flatten_json_output = True\<rparr>
             (map briefing_prompt rows)))"

subsection \<open>\<open>JSON_VALUE\<close> and the fallback chain\<close>

datatype path_step = Field string | Index nat

fun json_step :: "json \<Rightarrow> path_step \<Rightarrow> json option" where
  "json_step (JObj kvs) (Field k) = map_of kvs k"
| "json_step (JArr xs) (Index i) = (if i < length xs then Some (xs ! i) else None)"
| "json_step v s = None"

fun json_at :: "json \<Rightarrow> path_step list \<Rightarrow> json option" where
  "json_at v [] = Some v"
| "json_at v (s # ss) = (case json_step v s of None \<Rightarrow> None | Some w \<Rightarrow> json_at w ss)"

text \<open>
  \<open>JSON_VALUE(j, path)\<close>: the scalar at the path as a string; \<open>NULL\<close> when \<open>j\<close> is \<open>NULL\<close>,
  when the path leads nowhere, and when it leads to an object, an array or a JSON null.
\<close>

definition json_value :: "json option \<Rightarrow> path_step list \<Rightarrow> string option" where
  "json_value jv path =
     (case jv of
        None \<Rightarrow> None
      | Some v \<Rightarrow>
          (case json_at v path of
             Some (JStr s) \<Rightarrow> Some s
           | Some (JNum n) \<Rightarrow> Some n
           | Some (JBool b) \<Rightarrow> Some (if b then ''true'' else ''false'')
           | _ \<Rightarrow> None))"

text \<open>
  The five arguments of the \<open>COALESCE\<close> of \<open>final\<close>, in its order: the column
  \<open>llm_text\<close>, then \<open>JSON_VALUE\<close> of \<open>j\<close> at
  \<open>$.ml_generate_text_result.candidates[0].content.parts[0].text\<close>,
  \<open>$.ml_generate_text_result.candidates[0].content[0].text\<close>,
  \<open>$.predictions[0].content\<close> and \<open>$.text\<close>.
\<close>

definition briefing_candidates :: "string option \<Rightarrow> json option \<Rightarrow> string option list" where
  "briefing_candidates llm_text' j' =
     [llm_text',
      json_value j' [Field ''ml_generate_text_result'', Field ''candidates'', Index 0,
                     Field ''content'', Field ''parts'', Index 0, Field ''text''],
      json_value j' [Field ''ml_generate_text_result'', Field ''candidates'', Index 0,
                     Field ''content'', Index 0, Field ''text''],
      json_value j' [Field ''predictions'', Index 0, Field ''content''],
      json_value j' [Field ''text'']]"

text \<open>\<open>final\<close> with the closing \<open>SELECT * FROM final WHERE briefing_text IS NOT NULL\<close>.\<close>

definition final :: "llm_answer list \<Rightarrow> briefing_row list" where
  "final fallback =
     concat (map (\<lambda>r. case coalesce (briefing_candidates (la_llm_text r) (j r)) of
                         None \<Rightarrow> []
                       | Some txt \<Rightarrow>
                           [\<lparr>event_date = event_date r, country = country r, briefing_text = txt\<rparr>])
               fallback)"

definition create_daily_briefings ::
  "generator \<Rightarrow> (string \<Rightarrow> string) \<Rightarrow> (string \<Rightarrow> string) \<Rightarrow>
   dct_row list \<Rightarrow> ent_row list \<Rightarrow> daily_analogs_row list \<Rightarrow>
   nat \<Rightarrow> nat \<Rightarrow> nat \<Rightarrow> float64 \<Rightarrow> briefing_row list" where
  "create_daily_briefings gen nice_themes nice_people dct ents daily_analogs
       top_n context_chars max_tokens temp =
     final (llm gen temp max_tokens
       (normalized nice_themes nice_people
          (to_summarize dct ents daily_analogs top_n context_chars)))"
section \<open>Mood Blender: \<open>create_daily_moodmap\<close>\<close>

subsection \<open>The pattern \<open>-?\d+\.\d+\<close>\<close>

definition is_digit :: "char \<Rightarrow> bool" where
  "is_digit c = (c \<in> set ''0123456789'')"

text \<open>
  A match of \<open>-?\d+\.\d+\<close> that starts at the head of \<open>s\<close>.  Both \<open>\d+\<close> are greedy;
  giving a digit back never helps, since the next pattern character is no digit, so the
  only candidate takes each run of digits whole.
\<close>

definition match_decimal_at :: "string \<Rightarrow> string option" where
  "match_decimal_at s =
     (let sgn = (if take 1 s = ''-'' then ''-'' else []);
          u = drop (length sgn) s;
          ds = takeWhile is_digit u;
          r = dropWhile is_digit u
      in if ds = [] then None
         else (case r of
                 [] \<Rightarrow> None
               | c # r' \<Rightarrow>
                   if c = CHR ''.'' \<and> takeWhile is_digit r' \<noteq> []
                   then Some (sgn @ ds @ ''.'' @ takeWhile is_digit r')
                   else None))"

text \<open>\<open>REGEXP_EXTRACT(llm_text, r"-?\d+\.\d+")\<close>: the match at the leftmost position that has one.\<close>

fun regexp_extract_decimal :: "string \<Rightarrow> string option" where
  "regexp_extract_decimal [] = None"
| "regexp_extract_decimal (c # cs) =
     (case match_decimal_at (c # cs) of
        Some m \<Rightarrow> Some m
      | None \<Rightarrow> regexp_extract_decimal cs)"

text \<open>
  The language of the pattern, stated apart from the matcher: an optional minus sign, one
  or more digits, a point, one or more digits.
\<close>

definition signed_decimal :: "string \<Rightarrow> bool" where
  "signed_decimal m =
     (\<exists>ds fs. ds \<noteq> [] \<and> fs \<noteq> [] \<and> list_all is_digit ds \<and> list_all is_digit fs
        \<and> (m = ds @ ''.'' @ fs \<or> m = ''-'' @ ds @ ''.'' @ fs))"

text \<open>
  \<open>SAFE_CAST(... AS FLOAT64)\<close> on a decimal literal: an optional minus sign, digits, and
  optionally a point with digits.  The cast is only ever applied to a match of the
  pattern above; other spellings of a number are not modelled and give \<open>NULL\<close> here.
\<close>

definition digits_val :: "string \<Rightarrow> nat" where
  "digits_val ds = foldl (\<lambda>a c. 10 * a + (of_char c - 48)) 0 ds"

definition safe_cast_float64 :: "string \<Rightarrow> float64 option" where
  "safe_cast_float64 s =
     (let neg = (take 1 s = ''-'');
          u = (if neg then drop 1 s else s);
          ip = takeWhile is_digit u;
          r = dropWhile is_digit u;
          sg = (if neg then - 1 else 1)
      in if ip = [] then None
         else (case r of
                 [] \<Rightarrow> Some (sg * real (digits_val ip))
               | c # fp \<Rightarrow>
                   if c = CHR ''.'' \<and> fp \<noteq> [] \<and> list_all is_digit fp
                   then Some (sg * (real (digits_val ip) + real (digits_val fp) / 10 ^ length fp))
                   else None))"

definition extract_sentiment :: "string option \<Rightarrow> float64 option" where
  "extract_sentiment llm_text =
     (case llm_text of
        None \<Rightarrow> None
      | Some s \<Rightarrow> (case regexp_extract_decimal s of None \<Rightarrow> None | Some m \<Rightarrow> safe_cast_float64 m))"

subsection \<open>The blend\<close>

text \<open>\<open>ROUND(x, 4)\<close>: to four decimals, halfway cases away from zero.\<close>

definition round4 :: "float64 \<Rightarrow> float64" where
  "round4 x = (if 0 \<le> x then of_int \<lfloor>x * 10000 + 1 / 2\<rfloor> / 10000
               else - (of_int \<lfloor>- x * 10000 + 1 / 2\<rfloor> / 10000))"

text \<open>
  \<open>ROUND((SAFE_CAST(sentiment_score AS FLOAT64) + SAFE_CAST(avg_tone AS FLOAT64) / 10) / 2, 4)\<close>:
  \<open>NULL\<close> when either operand is.
\<close>

definition blend :: "float64 option \<Rightarrow> float64 option \<Rightarrow> float64 option" where
  "blend sentiment_score tone =
     (case (sentiment_score, tone) of
        (Some s, Some t) \<Rightarrow> Some (round4 ((s + t / 10) / 2))
      | _ \<Rightarrow> None)"

subsection \<open>The statement of \<open>create_daily_moodmap\<close>\<close>

record joined_row = briefing_row +
  jd_avg_tone :: "float64 option"
  jd_top_themes :: "(string \<times> nat) list option"

definition latest_date :: "briefing_row list \<Rightarrow> date option" where
  "latest_date briefings = max_date (map event_date briefings)"

definition joined_data :: "briefing_row list \<Rightarrow> dct_row list \<Rightarrow> ent_row list \<Rightarrow> joined_row list" where
  "joined_data briefings dct ents =
     map (\<lambda>((b, g), ent).
            \<lparr>event_date = event_date b, country = country b, briefing_text = briefing_text b,
             jd_avg_tone = (case g of None \<Rightarrow> None | Some g' \<Rightarrow> avg_tone g'),
             jd_top_themes = map_option top_themes ent\<rparr>)
       (left_join (\<lambda>(b, g) ent. same_key b ent)
          (left_join same_key
             (filter (\<lambda>b. Some (event_date b) = latest_date briefings) briefings) dct)
          ents)"

definition sentiment_prompt :: "'a briefing_row_scheme \<Rightarrow> prompt_row" where
  "sentiment_prompt s =
     \<lparr>event_date = event_date s, country = country s,
      prompt = concat_null
        [Some (''You are a sentiment analysis model. Read the news briefing and respond with a single number between -1 (very negative) and 1 (very positive).'' @ nl),
         Some (''Briefing:'' @ nl),
         Some (briefing_text s), Some nl,
         Some ''Sentiment score:'']\<rparr>"

record llm_row = joined_row +
  llm_text :: "string option"

definition llm_outputs :: "generator \<Rightarrow> float64 \<Rightarrow> nat \<Rightarrow> joined_row list \<Rightarrow> llm_row list" where
  "llm_outputs gen temp max_tokens jd =
     map (\<lambda>(s, (q, t)). joined_row.extend s \<lparr>llm_text = ml_generate_text_llm_result t\<rparr>)
       (inner_join (\<lambda>s (q, t). same_key s q) jd
          (generate_text gen
             \<lparr>temperature = temp, max_output_tokens = max_tokens, flatten_json_output = True\<rparr>
             (map sentiment_prompt jd)))"

record parsed_row = joined_row +
  sentiment_score :: "float64 option"

definition parsed_scores :: "llm_row list \<Rightarrow> parsed_row list" where
  "parsed_scores rows =
     map (\<lambda>r. \<lparr>event_date = event_date r, country = country r, briefing_text = briefing_text r,
                jd_avg_tone = jd_avg_tone r, jd_top_themes = jd_top_themes r,
                sentiment_score = extract_sentiment (llm_text r)\<rparr>) rows"

record blended_row = briefing_row +
  bl_mood_score :: "float64 option"
  bl_top_themes :: "(string \<times> nat) list option"

definition blended_scores :: "parsed_row list \<Rightarrow> blended_row list" where
  "blended_scores rows =
     map (\<lambda>r. \<lparr>event_date = event_date r, country = country r, briefing_text = briefing_text r,
                bl_mood_score = blend (sentiment_score r) (jd_avg_tone r),
                bl_top_themes = jd_top_themes r\<rparr>) rows"

definition summary_prompt :: "blended_row \<Rightarrow> prompt_row" where
  "summary_prompt s =
     \<lparr>event_date = event_date s, country = country s,
      prompt = concat_null
        [Some (''Summarize today'' @ [CHR 0xE2, CHR 0x80, CHR 0x99] @ ''s news mood for the ISO country code '' @ [CHR 0x22]),
         Some (country s), Some ([CHR 0x22] @ ''. ''),
         Some (''Write ONE sentence ('' @ [CHR 0xE2, CHR 0x89, CHR 0xA4] @ ''25 words). ''),
         Some ''Do not use labels. '',
         Some ''Keep it concise, neutral, and hover-friendly.'']\<rparr>"

record moodmap_row = briefing_row +
  mood_score :: float64
  mm_top_themes :: "(string \<times> nat) list option"
  summary_ref :: "string option"

definition short_summary :: "generator \<Rightarrow> float64 \<Rightarrow> blended_row list \<Rightarrow> (blended_row \<times> string option) list" where
  "short_summary gen temp bs =
     map (\<lambda>(s, (q, t)). (s, ml_generate_text_llm_result t))
       (inner_join (\<lambda>s (q, t). same_key s q) bs
          (generate_text gen
             \<lparr>temperature = temp, max_output_tokens = 60, flatten_json_output = True\<rparr>
             (map summary_prompt bs)))"

text \<open>The final \<open>SELECT * FROM short_summary WHERE mood_score IS NOT NULL\<close>.\<close>

definition create_daily_moodmap ::
  "generator \<Rightarrow> float64 \<Rightarrow> nat \<Rightarrow> briefing_row list \<Rightarrow> dct_row list \<Rightarrow> ent_row list \<Rightarrow> moodmap_row list" where
  "create_daily_moodmap gen temp max_tokens briefings dct ents =
     concat (map (\<lambda>(s, summary).
                    case bl_mood_score s of
                      None \<Rightarrow> []
                    | Some m \<Rightarrow>
                        [\<lparr>event_date = event_date s, country = country s,
                          briefing_text = briefing_text s, mood_score = m,
                          mm_top_themes = bl_top_themes s, summary_ref = summary\<rparr>])
       (short_summary gen temp
          (blended_scores (parsed_scores
             (llm_outputs gen temp max_tokens (joined_data briefings dct ents))))))"

section \<open>A small input\<close>

text \<open>A model that answers every prompt with the same text, and one country on one day.\<close>

definition example_generator :: "string \<Rightarrow> generator" where
  "example_generator answer ps q = \<lparr>ml_generate_text_llm_result = Some answer, t_json = None\<rparr>"

definition example_briefings :: "briefing_row list" where
  "example_briefings =
     [\<lparr>event_date = (2024, 1, 10), country = ''A'', briefing_text = ''[What happened] ...''\<rparr>]"

definition example_topics :: "dct_row list" where
  "example_topics =
     [\<lparr>event_date = (2024, 1, 10), country = ''A'',
       topic_doc = Some ''Country: A | Date: 2024-01-10'', headline_count = 3, avg_tone = Some 5\<rparr>]"

text \<open>
  Three days of two countries.  The embedding of a row is a pair of a cluster and a
  position; the example search returns the rows of the query's cluster, nearest position
  first, with the difference of the positions as distance.
\<close>

definition example_embeddings :: "(nat \<times> real) emb_row list" where
  "example_embeddings =
     [\<lparr>event_date = (2024, 1, 10), country = ''US'',
       topic_doc = Some ''Country: US | Date: 2024-01-10 | Sample URLs: http://u.s/1 | http://u.s/2'',
       embedding = (1, 0), emb_id = ''US-2024-01-10''\<rparr>,
      \<lparr>event_date = (2024, 1, 9), country = ''US'',
       topic_doc = Some ''Country: US | Date: 2024-01-09 | Sample URLs: https://u.s/3'',
       embedding = (1, 3 / 10), emb_id = ''US-2024-01-09''\<rparr>,
      \<lparr>event_date = (2024, 1, 8), country = ''US'',
       topic_doc = Some ''Country: US | Date: 2024-01-08'',
       embedding = (1, 1 / 10), emb_id = ''US-2024-01-08''\<rparr>,
      \<lparr>event_date = (2024, 1, 10), country = ''FR'',
       topic_doc = Some ''Country: FR | Date: 2024-01-10'',
       embedding = (2, 0), emb_id = ''FR-2024-01-10''\<rparr>,
      \<lparr>event_date = (2024, 1, 11), country = ''FR'',
       topic_doc = Some ''Country: FR | Date: 2024-01-11'',
       embedding = (2, 1 / 10), emb_id = ''FR-2024-01-11''\<rparr>]"

definition example_search :: "(nat \<times> real) vector_search" where
  "example_search table q top_k =
     take top_k (sort_key snd
       (map (\<lambda>r. (r, \<bar>snd q - snd (embedding r)\<bar>))
          (filter (\<lambda>r. fst (embedding r) = fst q) table)))"

definition example_today :: "keyed list" where
  "example_today =
     [\<lparr>event_date = (2024, 1, 10), country = ''FR''\<rparr>,
      \<lparr>event_date = (2024, 1, 10), country = ''US''\<rparr>]"

definition example_country_topics :: "dct_row list" where
  "example_country_topics =
     [\<lparr>event_date = (2024, 1, 10), country = ''US'',
       topic_doc = Some ''Country: US | Date: 2024-01-10 | Sample URLs: http://u.s/1 | http://u.s/2'',
       headline_count = 7, avg_tone = Some (- 2)\<rparr>,
      \<lparr>event_date = (2024, 1, 10), country = ''FR'',
       topic_doc = Some ''Country: FR | Date: 2024-01-10'',
       headline_count = 9, avg_tone = Some 1\<rparr>,
      \<lparr>event_date = (2024, 1, 9), country = ''US'',
       topic_doc = Some ''Country: US | Date: 2024-01-09 | Sample URLs: https://u.s/3'',
       headline_count = 70, avg_tone = Some (- 1)\<rparr>]"

text \<open>Two analogs of one country-day at the same distance.\<close>

definition example_ties :: "analog_result list" where
  "example_ties =
     [\<lparr>event_date = (2024, 1, 10), country = ''US'', past_date = (2024, 1, 9),
       snippet = Some ''Country: US | Date: 2024-01-09'', distance = 1 / 4\<rparr>,
      \<lparr>event_date = (2024, 1, 10), country = ''US'', past_date = (2024, 1, 8),
       snippet = Some ''Country: US | Date: 2024-01-08'', distance = 1 / 4\<rparr>]"

text \<open>Two analogs of one country-day at different distances, the farther one first.\<close>

definition example_flat :: "analog_result list" where
  "example_flat =
     [\<lparr>event_date = (2024, 1, 10), country = ''US'', past_date = (2024, 1, 9),
       snippet = Some ''Country: US | Date: 2024-01-09'', distance = 3 / 10\<rparr>,
      \<lparr>event_date = (2024, 1, 10), country = ''US'', past_date = (2024, 1, 8),
       snippet = Some ''Country: US | Date: 2024-01-08'', distance = 1 / 10\<rparr>]"


text \<open>
  A model whose answer row has no \<open>ml_generate_text_llm_result\<close> and carries text at two
  of the JSON paths.
\<close>

definition example_json_generator :: generator where
  "example_json_generator ps q =
     \<lparr>ml_generate_text_llm_result = None,
      t_json = Some (JObj [(''predictions'', JArr [JObj [(''content'', JStr ''from predictions'')]]),
                           (''text'', JStr ''from text'')])\<rparr>"

section \<open>Properties of the relational operators\<close>

lemma set_inner_join:
  "set (inner_join p ls rs) = {(l, r). l \<in> set ls \<and> r \<in> set rs \<and> p l r}"
  by (auto simp: inner_join_def)

lemma left_join_row:
  "set (case xs of [] \<Rightarrow> [(l, None)] | m # ms \<Rightarrow> map (\<lambda>r. (l, Some r)) (m # ms))
     = (if xs = [] then {(l, None)} else (\<lambda>r. (l, Some r)) ` set xs)"
  by (cases xs) auto

lemma in_left_join:
  "(l, ro) \<in> set (left_join p ls rs) \<longleftrightarrow>
     l \<in> set ls \<and> (case ro of None \<Rightarrow> filter (p l) rs = [] | Some r \<Rightarrow> r \<in> set rs \<and> p l r)"
proof -
  have "(l, ro) \<in> set (left_join p ls rs) \<longleftrightarrow>
          (\<exists>x \<in> set ls. (l, ro) \<in> (if filter (p x) rs = [] then {(x, None)}
               else (\<lambda>r. (x, Some r)) ` set (filter (p x) rs)))"
    unfolding left_join_def set_concat set_map left_join_row[symmetric] by blast
  also have "\<dots> \<longleftrightarrow> l \<in> set ls \<and> (l, ro) \<in> (if filter (p l) rs = [] then {(l, None)}
               else (\<lambda>r. (l, Some r)) ` set (filter (p l) rs))"
    by (auto split: if_splits)
  also have "\<dots> \<longleftrightarrow> l \<in> set ls \<and> (case ro of None \<Rightarrow> filter (p l) rs = [] | Some r \<Rightarrow> r \<in> set rs \<and> p l r)"
    by (cases ro) (auto simp: filter_empty_conv)
  finally show ?thesis .
qed


section \<open>Properties of the Mood Blender\<close>

lemma round4_bounds:
  assumes "- 1 \<le> x" "x \<le> 1"
  shows "- 1 \<le> round4 x \<and> round4 x \<le> 1"
proof -
  have step: "0 \<le> real_of_int \<lfloor>y * 10000 + 1 / 2\<rfloor> \<and> real_of_int \<lfloor>y * 10000 + 1 / 2\<rfloor> \<le> 10000"
    if "0 \<le> y" "y \<le> 1" for y :: real
  proof -
    define n where "n = \<lfloor>y * 10000 + 1 / 2\<rfloor>"
    have "n \<le> 10000" unfolding n_def using that by (simp add: floor_le_iff)
    moreover have "0 \<le> n" unfolding n_def using that by simp
    ultimately show ?thesis unfolding n_def[symmetric] by simp
  qed
  show ?thesis
  proof (cases "0 \<le> x")
    case True
    then have eq: "round4 x = real_of_int \<lfloor>x * 10000 + 1 / 2\<rfloor> / 10000"
      by (simp add: round4_def)
    from step[of x] True assms show ?thesis
      unfolding eq by (intro conjI; linarith)
  next
    case False
    then have eq: "round4 x = - (real_of_int \<lfloor>- x * 10000 + 1 / 2\<rfloor> / 10000)"
      by (simp add: round4_def)
    from step[of "- x"] False assms show ?thesis
      unfolding eq by (intro conjI; linarith)
  qed
qed

lemma blend_bounds:
  assumes "blend (Some s) (Some t) = Some m" "- 1 \<le> s" "s \<le> 1" "- 10 \<le> t" "t \<le> 10"
  shows "- 1 \<le> m \<and> m \<le> 1"
proof -
  have "- 1 \<le> (s + t / 10) / 2" "(s + t / 10) / 2 \<le> 1" using assms by simp_all
  from round4_bounds[OF this] assms(1) show ?thesis by (simp add: blend_def)
qed

lemma not_digit_dot [simp]: "\<not> is_digit CHR ''.''" "\<not> is_digit CHR ''-''"
  by (simp_all add: is_digit_def)

lemma takeWhile_digits_dot:
  "list_all is_digit ds \<Longrightarrow> takeWhile is_digit (ds @ CHR ''.'' # rest) = ds"
  by (induction ds) auto

lemma dropWhile_digits_dot:
  "list_all is_digit ds \<Longrightarrow> dropWhile is_digit (ds @ CHR ''.'' # rest) = CHR ''.'' # rest"
  by (induction ds) auto

lemma takeWhile_digits_nonempty:
  "fs \<noteq> [] \<Longrightarrow> list_all is_digit fs \<Longrightarrow> takeWhile is_digit (fs @ rest) \<noteq> []"
  by (cases fs) auto

lemma match_decimal_at_complete:
  assumes "signed_decimal m"
  shows "match_decimal_at (m @ post) \<noteq> None"
proof -
  from assms obtain ds fs where d: "ds \<noteq> []" "fs \<noteq> []" "list_all is_digit ds" "list_all is_digit fs"
    and m: "m = ds @ ''.'' @ fs \<or> m = ''-'' @ ds @ ''.'' @ fs"
    unfolding signed_decimal_def by blast
  from d obtain c cs where ds: "ds = c # cs" "is_digit c" by (cases ds) auto
  then have c: "c \<noteq> CHR ''-''" by auto
  from m show ?thesis
  proof
    assume "m = ds @ ''.'' @ fs"
    then have s: "m @ post = ds @ CHR ''.'' # (fs @ post)" by simp
    have t: "take 1 (m @ post) \<noteq> ''-''" using s ds c by simp
    show ?thesis
      using d takeWhile_digits_nonempty[OF d(2,4), of post] t unfolding match_decimal_at_def s
      by (simp add: takeWhile_digits_dot dropWhile_digits_dot Let_def)
  next
    assume "m = ''-'' @ ds @ ''.'' @ fs"
    then have s: "m @ post = CHR ''-'' # (ds @ CHR ''.'' # (fs @ post))" by simp
    show ?thesis
      using d takeWhile_digits_nonempty[OF d(2,4), of post] unfolding match_decimal_at_def s
      by (simp add: takeWhile_digits_dot dropWhile_digits_dot Let_def)
  qed
qed

lemma list_all_takeWhile: "list_all P (takeWhile P xs)"
  by (induction xs) auto

lemma match_decimal_at_sound:
  assumes "match_decimal_at s = Some m"
  shows "signed_decimal m \<and> (\<exists>post. s = m @ post)"
proof -
  define sgn where "sgn = (if take 1 s = ''-'' then ''-'' else [])"
  define u where "u = drop (length sgn) s"
  from assms obtain r' where ne: "takeWhile is_digit u \<noteq> []"
     and r: "dropWhile is_digit u = CHR ''.'' # r'" "takeWhile is_digit r' \<noteq> []"
     and m: "m = sgn @ takeWhile is_digit u @ ''.'' @ takeWhile is_digit r'"
    unfolding match_decimal_at_def sgn_def u_def
    by (auto simp: Let_def split: if_splits list.splits)
  have s: "s = sgn @ u"
    unfolding u_def sgn_def by (cases s) (auto split: if_splits)
  have "u = takeWhile is_digit u @ dropWhile is_digit u" by simp
  then have u: "u = takeWhile is_digit u @ CHR ''.'' # takeWhile is_digit r' @ dropWhile is_digit r'"
    unfolding r by simp
  have "s = m @ dropWhile is_digit r'"
    unfolding m by (subst s, subst u) simp
  moreover have "signed_decimal m"
    unfolding signed_decimal_def
    apply (rule exI[of _ "takeWhile is_digit u"], rule exI[of _ "takeWhile is_digit r'"])
    using ne r(2) m by (auto simp: list_all_takeWhile sgn_def split: if_splits)
  ultimately show ?thesis by blast
qed

lemma regexp_extract_None:
  "regexp_extract_decimal s = None \<Longrightarrow> match_decimal_at (drop i s) = None"
proof (induction s arbitrary: i)
  case Nil
  then show ?case by (simp add: match_decimal_at_def)
next
  case (Cons c cs)
  then show ?case by (cases i) (auto split: option.splits)
qed

lemma regexp_extract_Some:
  "regexp_extract_decimal s = Some m \<Longrightarrow>
     \<exists>k. match_decimal_at (drop k s) = Some m \<and> k \<le> length s \<and> (\<forall>i<k. match_decimal_at (drop i s) = None)"
proof (induction s)
  case Nil
  then show ?case by simp
next
  case (Cons c cs)
  show ?case
  proof (cases "match_decimal_at (c # cs)")
    case (Some m')
    with Cons.prems have "match_decimal_at (drop 0 (c # cs)) = Some m" by simp
    then show ?thesis by (intro exI[of _ 0]) simp
  next
    case None
    with Cons obtain k where k: "match_decimal_at (drop k cs) = Some m" "k \<le> length cs"
      "\<forall>i<k. match_decimal_at (drop i cs) = None" by auto
    have "\<forall>i<Suc k. match_decimal_at (drop i (c # cs)) = None"
    proof (intro allI impI)
      fix i assume "i < Suc k"
      then show "match_decimal_at (drop i (c # cs)) = None"
        using None k(3) by (cases i) auto
    qed
    with k show ?thesis by (intro exI[of _ "Suc k"]) simp
  qed
qed

lemma first_signed_decimal:
  assumes "regexp_extract_decimal txt = Some m"
  shows "signed_decimal m \<and> (\<exists>pre post. txt = pre @ m @ post \<and>
           (\<forall>pre' m' post'. txt = pre' @ m' @ post' \<and> signed_decimal m' \<longrightarrow> length pre \<le> length pre'))"
proof -
  from regexp_extract_Some[OF assms] obtain k where
    k: "match_decimal_at (drop k txt) = Some m" "k \<le> length txt" "\<forall>i<k. match_decimal_at (drop i txt) = None"
    by blast
  from match_decimal_at_sound[OF k(1)] obtain post where sd: "signed_decimal m" and p: "drop k txt = m @ post"
    by blast
  have t: "txt = take k txt @ m @ post" using p by (metis append_take_drop_id)
  have "length (take k txt) \<le> length pre'" if "txt = pre' @ m' @ post'" "signed_decimal m'" for pre' m' post'
  proof (rule ccontr)
    assume "\<not> length (take k txt) \<le> length pre'"
    then have "length pre' < k" using k(2) by simp
    with k(3) have "match_decimal_at (drop (length pre') txt) = None" by blast
    moreover have "drop (length pre') txt = m' @ post'" using that(1) by simp
    ultimately show False using match_decimal_at_complete[OF that(2), of post'] by simp
  qed
  with sd t show ?thesis by blast
qed

lemma no_signed_decimal:
  assumes "regexp_extract_decimal txt = None"
  shows "\<not> (\<exists>pre m post. txt = pre @ m @ post \<and> signed_decimal m)"
proof
  assume "\<exists>pre m post. txt = pre @ m @ post \<and> signed_decimal m"
  then obtain pre m post where t: "txt = pre @ m @ post" and sd: "signed_decimal m" by blast
  have "drop (length pre) txt = m @ post" using t by simp
  with regexp_extract_None[OF assms, of "length pre"] match_decimal_at_complete[OF sd, of post]
  show False by simp
qed

lemma same_key_sentiment_prompt [simp]: "same_key a (sentiment_prompt b) = same_key a b"
  by (simp add: same_key_def sentiment_prompt_def)

lemma same_key_summary_prompt [simp]: "same_key a (summary_prompt b) = same_key a b"
  by (simp add: same_key_def summary_prompt_def)

lemma joined_data_origin:
  assumes "s \<in> set (joined_data briefings dct ents)"
  shows "\<exists>b \<in> set briefings. event_date s = event_date b \<and> country s = country b
           \<and> briefing_text s = briefing_text b
           \<and> Some (event_date b) = latest_date briefings
           \<and> (jd_avg_tone s = None \<or> (\<exists>g \<in> set dct. same_key b g \<and> jd_avg_tone s = avg_tone g))"
proof -
  from assms obtain b g ent where
    j: "((b, g), ent) \<in> set (left_join (\<lambda>(b, g) ent. same_key b ent)
          (left_join same_key
             (filter (\<lambda>b. Some (event_date b) = latest_date briefings) briefings) dct) ents)"
    and s: "s = \<lparr>event_date = event_date b, country = country b, briefing_text = briefing_text b,
             jd_avg_tone = (case g of None \<Rightarrow> None | Some g' \<Rightarrow> avg_tone g'),
             jd_top_themes = map_option top_themes ent\<rparr>"
    unfolding joined_data_def by auto
  from j have bg: "(b, g) \<in> set (left_join same_key
             (filter (\<lambda>b. Some (event_date b) = latest_date briefings) briefings) dct)"
    by (simp add: in_left_join)
  then have b: "b \<in> set briefings" "Some (event_date b) = latest_date briefings"
    and g: "case g of None \<Rightarrow> True | Some g' \<Rightarrow> g' \<in> set dct \<and> same_key b g'"
    by (auto simp: in_left_join split: option.splits)
  show ?thesis
    by (rule bexI[OF _ b(1)]) (use s b(2) g in \<open>auto split: option.splits\<close>)
qed

lemma sentiment_prompt_cong:
  "event_date a = event_date b \<Longrightarrow> country a = country b \<Longrightarrow> briefing_text a = briefing_text b
    \<Longrightarrow> sentiment_prompt a = sentiment_prompt b"
  by (simp add: sentiment_prompt_def)

lemma moodmap_row_origin:
  assumes "r \<in> set (create_daily_moodmap gen temp mt briefings dct ents)"
  shows "\<exists>b \<in> set briefings. \<exists>b' \<in> set briefings. \<exists>tone.
           same_key b r \<and> same_key b' r \<and> briefing_text r = briefing_text b
           \<and> (tone = None \<or> (\<exists>g \<in> set dct. same_key g r \<and> tone = avg_tone g))
           \<and> blend (extract_sentiment (ml_generate_text_llm_result
                 (gen \<lparr>temperature = temp, max_output_tokens = mt, flatten_json_output = True\<rparr>
                    (sentiment_prompt b')))) tone = Some (mood_score r)"
proof -
  let ?jd = "joined_data briefings dct ents"
  let ?ps = "\<lparr>temperature = temp, max_output_tokens = mt, flatten_json_output = True\<rparr>"
  from assms have "\<exists>s \<in> set ?jd. \<exists>s' \<in> set ?jd. same_key s s'
     \<and> event_date r = event_date s \<and> country r = country s \<and> briefing_text r = briefing_text s
     \<and> blend (extract_sentiment (ml_generate_text_llm_result (gen ?ps (sentiment_prompt s')))) (jd_avg_tone s) = Some (mood_score r)"
    unfolding create_daily_moodmap_def short_summary_def blended_scores_def parsed_scores_def
      llm_outputs_def generate_text_def
    by (force simp: set_inner_join joined_row.extend_def split: option.splits)
  then obtain s s' where s: "s \<in> set ?jd" "s' \<in> set ?jd" "same_key s s'"
     and r: "event_date r = event_date s" "country r = country s" "briefing_text r = briefing_text s"
     and m: "blend (extract_sentiment (ml_generate_text_llm_result (gen ?ps (sentiment_prompt s')))) (jd_avg_tone s) = Some (mood_score r)"
    by blast
  from joined_data_origin[OF s(1)] obtain b where b: "b \<in> set briefings"
    "event_date s = event_date b" "country s = country b" "briefing_text s = briefing_text b"
    "jd_avg_tone s = None \<or> (\<exists>g \<in> set dct. same_key b g \<and> jd_avg_tone s = avg_tone g)" by blast
  from joined_data_origin[OF s(2)] obtain b' where b': "b' \<in> set briefings"
    "event_date s' = event_date b'" "country s' = country b'" "briefing_text s' = briefing_text b'" by blast
  have p: "sentiment_prompt s' = sentiment_prompt b'"
    using b' by (intro sentiment_prompt_cong) auto
  show ?thesis
    apply (rule bexI[OF _ b(1)], rule bexI[OF _ b'(1)], rule exI[of _ "jd_avg_tone s"])
    using b b' r s(3) m unfolding p by (auto simp: same_key_def)
qed

lemma extract_sentiment_integer:
  "extract_sentiment (Some ''1'') = None" "extract_sentiment (Some ''-1'') = None"
  by (simp_all add: extract_sentiment_def match_decimal_at_def is_digit_def)

lemma moodmap_empty_if_no_sentiment:
  assumes "\<And>q. extract_sentiment (ml_generate_text_llm_result
             (gen \<lparr>temperature = temp, max_output_tokens = mt, flatten_json_output = True\<rparr> q)) = None"
  shows "create_daily_moodmap gen temp mt briefings dct ents = []"
proof -
  have "r \<notin> set (create_daily_moodmap gen temp mt briefings dct ents)" for r
  proof
    assume "r \<in> set (create_daily_moodmap gen temp mt briefings dct ents)"
    from moodmap_row_origin[OF this] assms show False by (auto simp: blend_def)
  qed
  then show ?thesis by (cases "create_daily_moodmap gen temp mt briefings dct ents") auto
qed

lemmas moodmap_run_defs =
  create_daily_moodmap_def short_summary_def blended_scores_def parsed_scores_def
  llm_outputs_def joined_data_def latest_date_def left_join_def inner_join_def
  generate_text_def same_key_def sentiment_prompt_def summary_prompt_def
  example_generator_def example_briefings_def example_topics_def
  extract_sentiment_def match_decimal_at_def is_digit_def safe_cast_float64_def
  digits_val_def blend_def round4_def joined_row.extend_def

text \<open>
  Claim C1.  Every row of \<open>daily_moodmap\<close> carries
  \<open>mood_score = ROUND((sentiment_score + avg_tone / 10) / 2, 4)\<close>, where \<open>sentiment_score\<close>
  is the number extracted from the model's answer to the sentiment prompt of a briefing
  of the same (event_date, country), and \<open>avg_tone\<close> is that of the row of
  \<open>daily_country_topics\<close> with the same key.  In particular an answer \<open>0.30\<close> with
  \<open>avg_tone = 5.0\<close> gives 0.4, and a sentiment of 0.4 with \<open>avg_tone = -2\<close> gives 0.1.
\<close>

theorem mood_score_formula:
  "(\<forall>r \<in> set (create_daily_moodmap gen temp max_tokens briefings dct ents).
      \<exists>b \<in> set briefings. \<exists>g \<in> set dct. \<exists>s t.
        same_key b r \<and> same_key g r \<and> avg_tone g = Some t
        \<and> extract_sentiment (ml_generate_text_llm_result
             (gen \<lparr>temperature = temp, max_output_tokens = max_tokens, flatten_json_output = True\<rparr>
                (sentiment_prompt b))) = Some s
        \<and> mood_score r = round4 ((s + t / 10) / 2))
   \<and> blend (extract_sentiment (Some ''0.30'')) (Some 5) = Some (4 / 10)
   \<and> blend (Some (4 / 10)) (Some (- 2)) = Some (1 / 10)"
proof (intro conjI ballI)
  fix r assume "r \<in> set (create_daily_moodmap gen temp max_tokens briefings dct ents)"
  from moodmap_row_origin[OF this] obtain b b' tone where
    b: "b \<in> set briefings" "b' \<in> set briefings" "same_key b' r"
    and tone: "tone = None \<or> (\<exists>g \<in> set dct. same_key g r \<and> tone = avg_tone g)"
    and m: "blend (extract_sentiment (ml_generate_text_llm_result
              (gen \<lparr>temperature = temp, max_output_tokens = max_tokens, flatten_json_output = True\<rparr>
                 (sentiment_prompt b')))) tone = Some (mood_score r)"
    by blast
  from m obtain s t where st: "extract_sentiment (ml_generate_text_llm_result
              (gen \<lparr>temperature = temp, max_output_tokens = max_tokens, flatten_json_output = True\<rparr>
                 (sentiment_prompt b'))) = Some s" "tone = Some t"
    "mood_score r = round4 ((s + t / 10) / 2)"
    by (auto simp: blend_def split: option.splits)
  with tone obtain g where g: "g \<in> set dct" "same_key g r" "avg_tone g = Some t" by auto
  show "\<exists>b \<in> set briefings. \<exists>g \<in> set dct. \<exists>s t.
        same_key b r \<and> same_key g r \<and> avg_tone g = Some t
        \<and> extract_sentiment (ml_generate_text_llm_result
             (gen \<lparr>temperature = temp, max_output_tokens = max_tokens, flatten_json_output = True\<rparr>
                (sentiment_prompt b))) = Some s
        \<and> mood_score r = round4 ((s + t / 10) / 2)"
    using b(2,3) g st(1,3) by blast
next
  show "blend (extract_sentiment (Some ''0.30'')) (Some 5) = Some (4 / 10)"
    by (simp add: extract_sentiment_def match_decimal_at_def is_digit_def safe_cast_float64_def
        digits_val_def blend_def round4_def)
next
  show "blend (Some (4 / 10)) (Some (- 2)) = Some (1 / 10)"
    by (simp add: blend_def round4_def)
qed

theorem mood_score_formula_witness:
  "\<lparr>event_date = (2024, 1, 10), country = ''A'', briefing_text = ''[What happened] ...'',
     mood_score = 4 / 10, mm_top_themes = None, summary_ref = Some ''0.30''\<rparr>
     \<in> set (create_daily_moodmap (example_generator ''0.30'') (2 / 10) 300
              example_briefings example_topics [])
   \<and> (\<exists>b \<in> set example_briefings. \<exists>g \<in> set example_topics. \<exists>s t.
        same_key b \<lparr>event_date = (2024, 1, 10), country = ''A''\<rparr>
        \<and> same_key g \<lparr>event_date = (2024, 1, 10), country = ''A''\<rparr>
        \<and> avg_tone g = Some t
        \<and> extract_sentiment (ml_generate_text_llm_result
             (example_generator ''0.30''
                \<lparr>temperature = 2 / 10, max_output_tokens = 300, flatten_json_output = True\<rparr>
                (sentiment_prompt b))) = Some s
        \<and> (4 / 10 :: real) = round4 ((s + t / 10) / 2))"
proof -
  let ?r = "\<lparr>event_date = (2024, 1, 10), country = ''A'', briefing_text = ''[What happened] ...'',
     mood_score = 4 / 10, mm_top_themes = None, summary_ref = Some ''0.30''\<rparr>"
  have m: "?r \<in> set (create_daily_moodmap (example_generator ''0.30'') (2 / 10) 300
              example_briefings example_topics [])"
    by (simp add: moodmap_run_defs)
  from mood_score_formula[THEN conjunct1, rule_format, OF m] m
  show ?thesis by (simp add: same_key_def)
qed

text \<open>
  Claim C5.  A row of \<open>daily_moodmap\<close> whose extracted sentiment lies in [-1, 1] and whose
  \<open>avg_tone\<close> lies in [-10, 10] has its \<open>mood_score\<close>, as rounded to four decimals, in [-1, 1].
  The bounds are asked of every answer and every aggregate that the joins can pair with
  the row's key.
\<close>

theorem mood_score_bounded:
  assumes "r \<in> set (create_daily_moodmap gen temp max_tokens briefings dct ents)"
    and "\<forall>b \<in> set briefings. same_key b r \<longrightarrow>
           (\<forall>s. extract_sentiment (ml_generate_text_llm_result
                  (gen \<lparr>temperature = temp, max_output_tokens = max_tokens, flatten_json_output = True\<rparr>
                     (sentiment_prompt b))) = Some s \<longrightarrow> - 1 \<le> s \<and> s \<le> 1)"
    and "\<forall>g \<in> set dct. same_key g r \<longrightarrow> (\<forall>t. avg_tone g = Some t \<longrightarrow> - 10 \<le> t \<and> t \<le> 10)"
  shows "- 1 \<le> mood_score r \<and> mood_score r \<le> 1"
proof -
  from moodmap_row_origin[OF assms(1)] obtain b' tone where
    b: "b' \<in> set briefings" "same_key b' r"
    and tone: "tone = None \<or> (\<exists>g \<in> set dct. same_key g r \<and> tone = avg_tone g)"
    and m: "blend (extract_sentiment (ml_generate_text_llm_result
              (gen \<lparr>temperature = temp, max_output_tokens = max_tokens, flatten_json_output = True\<rparr>
                 (sentiment_prompt b')))) tone = Some (mood_score r)"
    by blast
  from m obtain s t where st: "extract_sentiment (ml_generate_text_llm_result
              (gen \<lparr>temperature = temp, max_output_tokens = max_tokens, flatten_json_output = True\<rparr>
                 (sentiment_prompt b'))) = Some s" "tone = Some t"
    by (auto simp: blend_def split: option.splits)
  from assms(2) b st(1) have s: "- 1 \<le> s" "s \<le> 1" by auto
  from tone st(2) assms(3) have t: "- 10 \<le> t" "t \<le> 10" by auto
  from m show ?thesis unfolding st by (rule blend_bounds) (use s t in auto)
qed

theorem mood_score_bounded_witness:
  "\<lparr>event_date = (2024, 1, 10), country = ''A'', briefing_text = ''[What happened] ...'',
     mood_score = 0, mm_top_themes = None, summary_ref = Some ''-0.5''\<rparr>
     \<in> set (create_daily_moodmap (example_generator ''-0.5'') (2 / 10) 300
              example_briefings example_topics [])
   \<and> - 1 \<le> mood_score \<lparr>event_date = (2024, 1, 10), country = ''A'',
        briefing_text = ''[What happened] ...'',
        mood_score = 0, mm_top_themes = None, summary_ref = Some ''-0.5''\<rparr>
   \<and> mood_score \<lparr>event_date = (2024, 1, 10), country = ''A'',
        briefing_text = ''[What happened] ...'',
        mood_score = 0, mm_top_themes = None, summary_ref = Some ''-0.5''\<rparr> \<le> (1 :: real)"
proof -
  let ?r = "\<lparr>event_date = (2024, 1, 10), country = ''A'', briefing_text = ''[What happened] ...'',
     mood_score = 0 :: real, mm_top_themes = None, summary_ref = Some ''-0.5''\<rparr>"
  have m: "?r \<in> set (create_daily_moodmap (example_generator ''-0.5'') (2 / 10) 300
              example_briefings example_topics [])"
    by (simp add: moodmap_run_defs)
  have s: "\<forall>b \<in> set example_briefings. same_key b ?r \<longrightarrow>
           (\<forall>s. extract_sentiment (ml_generate_text_llm_result
                  (example_generator ''-0.5''
                     \<lparr>temperature = 2 / 10, max_output_tokens = 300, flatten_json_output = True\<rparr>
                     (sentiment_prompt b))) = Some s \<longrightarrow> - 1 \<le> s \<and> s \<le> 1)"
    by (simp add: moodmap_run_defs)
  have t: "\<forall>g \<in> set example_topics. same_key g ?r \<longrightarrow>
             (\<forall>t. avg_tone g = Some t \<longrightarrow> - 10 \<le> t \<and> t \<le> 10)"
    by (simp add: example_topics_def)
  from mood_score_bounded[OF m s t] m show ?thesis by blast
qed

lemma safe_cast_signed_decimal:
  assumes "signed_decimal m"
  shows "\<exists>v. safe_cast_float64 m = Some v"
proof -
  from assms obtain ds fs where d: "ds \<noteq> []" "fs \<noteq> []" "list_all is_digit ds" "list_all is_digit fs"
    and m: "m = ds @ ''.'' @ fs \<or> m = ''-'' @ ds @ ''.'' @ fs"
    unfolding signed_decimal_def by blast
  from d obtain c cs where ds: "ds = c # cs" "is_digit c" by (cases ds) auto
  then have c: "c \<noteq> CHR ''-''" by auto
  from m show ?thesis
  proof
    assume "m = ds @ ''.'' @ fs"
    then have s: "m = ds @ CHR ''.'' # fs" by simp
    have t: "take 1 m \<noteq> ''-''" using s ds c by simp
    show ?thesis
      using d t unfolding safe_cast_float64_def s
      by (simp add: takeWhile_digits_dot dropWhile_digits_dot Let_def)
  next
    assume "m = ''-'' @ ds @ ''.'' @ fs"
    then have s: "m = CHR ''-'' # (ds @ CHR ''.'' # fs)" by simp
    show ?thesis
      using d unfolding safe_cast_float64_def s
      by (simp add: takeWhile_digits_dot dropWhile_digits_dot Let_def)
  qed
qed

lemma extract_sentiment_first_match:
  assumes "regexp_extract_decimal txt = Some m"
  shows "\<exists>v. safe_cast_float64 m = Some v \<and> extract_sentiment (Some txt) = Some v"
proof -
  from first_signed_decimal[OF assms] have "signed_decimal m" by blast
  from safe_cast_signed_decimal[OF this] obtain v where "safe_cast_float64 m = Some v" by blast
  with assms show ?thesis by (simp add: extract_sentiment_def)
qed

lemma extract_sentiment_Some:
  assumes "extract_sentiment ans = Some v"
  shows "\<exists>txt m. ans = Some txt \<and> regexp_extract_decimal txt = Some m \<and> safe_cast_float64 m = Some v"
  using assms unfolding extract_sentiment_def by (auto split: option.splits)

text \<open>
  Claim C6.  The sentiment is read from the first match of the signed-decimal pattern in
  the answer: when the pattern matches, the matched text is a signed decimal that occurs
  in the answer, no signed decimal occurs in the answer from an earlier position, and
  \<open>sentiment_score\<close> is the number that this text spells.  Every row of \<open>daily_moodmap\<close> has
  its \<open>mood_score\<close> blended from the number of the first match in an answer for its key.
  When the answer holds no signed decimal the extraction gives \<open>NULL\<close>; and a key all of
  whose answers give \<open>NULL\<close> has no row in \<open>daily_moodmap\<close>: the row is left out, with no
  second call and no zero in its place.
\<close>

theorem sentiment_first_match_or_dropped:
  "(\<forall>m. regexp_extract_decimal txt = Some m \<longrightarrow>
      signed_decimal m \<and>
      (\<exists>pre post. txt = pre @ m @ post \<and>
         (\<forall>pre' m' post'. txt = pre' @ m' @ post' \<and> signed_decimal m' \<longrightarrow> length pre \<le> length pre')) \<and>
      (\<exists>v. safe_cast_float64 m = Some v \<and> extract_sentiment (Some txt) = Some v))
   \<and> (regexp_extract_decimal txt = None \<longrightarrow>
        extract_sentiment (Some txt) = None
        \<and> \<not> (\<exists>pre m post. txt = pre @ m @ post \<and> signed_decimal m))
   \<and> (\<forall>r \<in> set (create_daily_moodmap gen temp max_tokens briefings dct ents).
        \<exists>b \<in> set briefings. \<exists>answer m v t.
          same_key b r
          \<and> ml_generate_text_llm_result (gen \<lparr>temperature = temp, max_output_tokens = max_tokens, flatten_json_output = True\<rparr> (sentiment_prompt b)) = Some answer
          \<and> regexp_extract_decimal answer = Some m
          \<and> safe_cast_float64 m = Some v
          \<and> mood_score r = round4 ((v + t / 10) / 2))
   \<and> ((\<forall>b \<in> set briefings. same_key b k \<longrightarrow>
          extract_sentiment (ml_generate_text_llm_result (gen \<lparr>temperature = temp, max_output_tokens = max_tokens, flatten_json_output = True\<rparr> (sentiment_prompt b))) = None)
        \<longrightarrow> \<not> (\<exists>r \<in> set (create_daily_moodmap gen temp max_tokens briefings dct ents). same_key r k))"
proof (intro conjI allI impI ballI)
  fix m assume e: "regexp_extract_decimal txt = Some m"
  from first_signed_decimal[OF e]
  show "signed_decimal m"
    and "\<exists>pre post. txt = pre @ m @ post \<and>
         (\<forall>pre' m' post'. txt = pre' @ m' @ post' \<and> signed_decimal m' \<longrightarrow> length pre \<le> length pre')"
    by blast+
  show "\<exists>v. safe_cast_float64 m = Some v \<and> extract_sentiment (Some txt) = Some v"
    by (rule extract_sentiment_first_match[OF e])
next
  assume n: "regexp_extract_decimal txt = None"
  then show "extract_sentiment (Some txt) = None" by (simp add: extract_sentiment_def)
  from no_signed_decimal[OF n] show "\<not> (\<exists>pre m post. txt = pre @ m @ post \<and> signed_decimal m)" .
next
  fix r assume "r \<in> set (create_daily_moodmap gen temp max_tokens briefings dct ents)"
  from moodmap_row_origin[OF this] obtain b' tone where
    b: "b' \<in> set briefings" "same_key b' r"
    and m: "blend (extract_sentiment (ml_generate_text_llm_result (gen \<lparr>temperature = temp, max_output_tokens = max_tokens, flatten_json_output = True\<rparr> (sentiment_prompt b')))) tone
              = Some (mood_score r)"
    by blast
  from m obtain v t where v: "extract_sentiment (ml_generate_text_llm_result
              (gen \<lparr>temperature = temp, max_output_tokens = max_tokens, flatten_json_output = True\<rparr> (sentiment_prompt b'))) = Some v"
    and r': "round4 ((v + t / 10) / 2) = mood_score r"
    by (auto simp: blend_def split: option.splits)
  note r = r'[symmetric]
  from extract_sentiment_Some[OF v] obtain answer m' where
    "ml_generate_text_llm_result (gen \<lparr>temperature = temp, max_output_tokens = max_tokens, flatten_json_output = True\<rparr> (sentiment_prompt b')) = Some answer"
    "regexp_extract_decimal answer = Some m'" "safe_cast_float64 m' = Some v" by blast
  with b r show "\<exists>b \<in> set briefings. \<exists>answer m v t.
          same_key b r
          \<and> ml_generate_text_llm_result (gen \<lparr>temperature = temp, max_output_tokens = max_tokens, flatten_json_output = True\<rparr> (sentiment_prompt b)) = Some answer
          \<and> regexp_extract_decimal answer = Some m
          \<and> safe_cast_float64 m = Some v
          \<and> mood_score r = round4 ((v + t / 10) / 2)"
    by blast
next
  assume a: "\<forall>b \<in> set briefings. same_key b k \<longrightarrow>
          extract_sentiment (ml_generate_text_llm_result (gen \<lparr>temperature = temp, max_output_tokens = max_tokens, flatten_json_output = True\<rparr> (sentiment_prompt b))) = None"
  show "\<not> (\<exists>r \<in> set (create_daily_moodmap gen temp max_tokens briefings dct ents). same_key r k)"
  proof
    assume "\<exists>r \<in> set (create_daily_moodmap gen temp max_tokens briefings dct ents). same_key r k"
    then obtain r where r: "r \<in> set (create_daily_moodmap gen temp max_tokens briefings dct ents)"
      and k: "same_key r k" by blast
    from moodmap_row_origin[OF r] obtain b' tone where
      b: "b' \<in> set briefings" "same_key b' r"
      and m: "blend (extract_sentiment (ml_generate_text_llm_result (gen \<lparr>temperature = temp, max_output_tokens = max_tokens, flatten_json_output = True\<rparr> (sentiment_prompt b')))) tone
                = Some (mood_score r)"
      by blast
    from b(2) k have "same_key b' k" by (simp add: same_key_def)
    with a b(1) m show False by (simp add: blend_def)
  qed
qed

theorem sentiment_first_match_or_dropped_witness:
  "regexp_extract_decimal ''Score: -0.35, not 0.9'' = Some ''-0.35''
   \<and> signed_decimal ''-0.35''
   \<and> safe_cast_float64 ''-0.35'' = Some (- 35 / 100)
   \<and> extract_sentiment (Some ''Score: -0.35, not 0.9'') = Some (- 35 / 100)
   \<and> \<lparr>event_date = (2024, 1, 10), country = ''A'', briefing_text = ''[What happened] ...'',
       mood_score = 3 / 40, mm_top_themes = None, summary_ref = Some ''Score: -0.35, not 0.9''\<rparr>
       \<in> set (create_daily_moodmap (example_generator ''Score: -0.35, not 0.9'') (2 / 10) 300
                example_briefings example_topics [])
   \<and> (3 / 40 :: real) = round4 ((- 35 / 100 + 5 / 10) / 2)
   \<and> regexp_extract_decimal ''positive'' = None
   \<and> extract_sentiment (Some ''positive'') = None
   \<and> \<not> (\<exists>r \<in> set (create_daily_moodmap (example_generator ''positive'') (2 / 10) 300
                     example_briefings example_topics []).
            same_key r \<lparr>event_date = (2024, 1, 10), country = ''A''\<rparr>)"
proof -
  have e: "regexp_extract_decimal ''Score: -0.35, not 0.9'' = Some ''-0.35''"
    by (simp add: match_decimal_at_def is_digit_def)
  have c: "safe_cast_float64 ''-0.35'' = Some (- 35 / 100)"
    by (simp add: safe_cast_float64_def is_digit_def digits_val_def)
  have n: "regexp_extract_decimal ''positive'' = None"
    by (simp add: match_decimal_at_def is_digit_def)
  have a: "\<forall>b \<in> set example_briefings. same_key b \<lparr>event_date = (2024, 1, 10), country = ''A''\<rparr> \<longrightarrow>
          extract_sentiment (ml_generate_text_llm_result
            (example_generator ''positive''
               \<lparr>temperature = 2 / 10, max_output_tokens = 300, flatten_json_output = True\<rparr>
               (sentiment_prompt b))) = None"
    by (simp add: example_generator_def extract_sentiment_def n del: regexp_extract_decimal.simps)
  have w: "\<lparr>event_date = (2024, 1, 10), country = ''A'', briefing_text = ''[What happened] ...'',
       mood_score = 3 / 40, mm_top_themes = None, summary_ref = Some ''Score: -0.35, not 0.9''\<rparr>
       \<in> set (create_daily_moodmap (example_generator ''Score: -0.35, not 0.9'') (2 / 10) 300
                example_briefings example_topics [])"
    by (simp add: moodmap_run_defs)
  have q: "(3 / 40 :: real) = round4 ((- 35 / 100 + 5 / 10) / 2)"
    by (simp add: round4_def)
  note t = sentiment_first_match_or_dropped
  from t[of "''Score: -0.35, not 0.9''", THEN conjunct1, rule_format, OF e]
  have sd: "signed_decimal ''-0.35''"
    and "\<exists>v. safe_cast_float64 ''-0.35'' = Some v
             \<and> extract_sentiment (Some ''Score: -0.35, not 0.9'') = Some v"
    by blast+
  with c have x: "extract_sentiment (Some ''Score: -0.35, not 0.9'') = Some (- 35 / 100)"
    by auto
  from t[of "''positive''", THEN conjunct2, THEN conjunct1, rule_format, OF n]
  have y: "extract_sentiment (Some ''positive'') = None" by blast
  from t[where gen = "example_generator ''positive''" and temp = "2 / 10"
      and max_tokens = 300 and briefings = example_briefings and dct = example_topics
      and ents = "[]" and k = "\<lparr>event_date = (2024, 1, 10), country = ''A''\<rparr>",
      THEN conjunct2, THEN conjunct2, THEN conjunct2, THEN mp, OF a]
  have z: "\<not> (\<exists>r \<in> set (create_daily_moodmap (example_generator ''positive'') (2 / 10) 300
                     example_briefings example_topics []).
            same_key r \<lparr>event_date = (2024, 1, 10), country = ''A''\<rparr>)" .
  from e sd c x w q n y z show ?thesis by (intro conjI)
qed

text \<open>
  Claim C10.  The pattern asks for a point with digits on both sides.  An answer that is
  exactly \<open>1\<close> or \<open>-1\<close>, a number of the range the prompt asks for, has no match:
  the extraction gives \<open>NULL\<close>, and with such answers no row reaches \<open>daily_moodmap\<close>,
  whatever the briefings and aggregates are.
\<close>

theorem integer_answer_dropped:
  "regexp_extract_decimal ''1'' = None \<and> regexp_extract_decimal ''-1'' = None
   \<and> extract_sentiment (Some ''1'') = None \<and> extract_sentiment (Some ''-1'') = None
   \<and> safe_cast_float64 ''1'' = Some 1 \<and> safe_cast_float64 ''-1'' = Some (- 1)
   \<and> create_daily_moodmap (example_generator ''1'') temp max_tokens briefings dct ents = []
   \<and> create_daily_moodmap (example_generator ''-1'') temp max_tokens briefings dct ents = []"
proof (intro conjI)
  show "regexp_extract_decimal ''1'' = None" "regexp_extract_decimal ''-1'' = None"
    by (simp_all add: match_decimal_at_def is_digit_def)
  show "extract_sentiment (Some ''1'') = None" "extract_sentiment (Some ''-1'') = None"
    by (rule extract_sentiment_integer)+
  show "safe_cast_float64 ''1'' = Some 1" "safe_cast_float64 ''-1'' = Some (- 1)"
    by (simp_all add: safe_cast_float64_def is_digit_def digits_val_def)
  show "create_daily_moodmap (example_generator ''1'') temp max_tokens briefings dct ents = []"
    by (rule moodmap_empty_if_no_sentiment) (simp add: example_generator_def extract_sentiment_integer)
  show "create_daily_moodmap (example_generator ''-1'') temp max_tokens briefings dct ents = []"
    by (rule moodmap_empty_if_no_sentiment) (simp add: example_generator_def extract_sentiment_integer)
qed

section \<open>Properties of the Analog Retriever\<close>

lemma sim_query_row:
  assumes "r \<in> set (sim_query vs emb snip topk c d)"
  shows "event_date r = d \<and> country r = c \<and> past_date r < d"
proof -
  from assms obtain x where
    x: "x \<in> set (take topk (sort_key cand_distance
          (filter (\<lambda>x. event_date x < d) (fn_similar_to_day vs emb c d))))"
    and r: "r = \<lparr>event_date = d, country = c, past_date = event_date x,
                snippet = excerpt snip (topic_doc x), distance = cand_distance x\<rparr>"
    unfolding sim_query_def by auto
  from x have "x \<in> set (filter (\<lambda>x. event_date x < d) (fn_similar_to_day vs emb c d))"
    by (auto dest: in_set_takeD)
  with r show ?thesis by simp
qed

lemma run_analog_searches_row:
  assumes "r \<in> set (run_analog_searches vs emb today snip topk)"
  shows "past_date r < event_date r"
    and "\<exists>row \<in> set today. r \<in> set (sim_query vs emb snip topk (country row) (event_date row))
           \<and> event_date r = event_date row \<and> country r = country row"
proof -
  from assms obtain row where row: "row \<in> set today"
    and r: "r \<in> set (sim_query vs emb snip topk (country row) (event_date row))"
    unfolding run_analog_searches_def by auto
  from sim_query_row[OF r] row r show "past_date r < event_date r"
    and "\<exists>row \<in> set today. r \<in> set (sim_query vs emb snip topk (country row) (event_date row))
           \<and> event_date r = event_date row \<and> country r = country row"
    by auto
qed

lemma sorted_order_by_ties: "sorted (map k (order_by_ties k tie xs))"
proof -
  have "sorted (map (\<lambda>x. (k x, tie x)) (order_by_ties k tie xs))"
    unfolding order_by_ties_def by (rule sorted_sort_key)
  then have "sorted_wrt (\<lambda>x y. (k x, tie x) \<le> (k y, tie y)) (order_by_ties k tie xs)"
    by (simp add: sorted_map)
  then have "sorted_wrt (\<lambda>x y. k x \<le> k y) (order_by_ties k tie xs)"
    by (rule sorted_wrt_mono_rel[rotated]) auto
  then show ?thesis by (simp add: sorted_map)
qed

lemma mset_order_by_ties [simp]: "mset (order_by_ties k tie xs) = mset xs"
  by (simp add: order_by_ties_def)

lemma set_order_by_ties [simp]: "set (order_by_ties k tie xs) = set xs"
  by (simp add: order_by_ties_def)

lemma length_order_by_ties [simp]: "length (order_by_ties k tie xs) = length xs"
  by (simp add: order_by_ties_def)

lemma order_by_ties_id:
  assumes "sorted (map k xs)" "distinct (map k xs)"
  shows "order_by_ties k tie xs = xs"
proof -
  from assms have "sorted_wrt (<) (map k xs)" by (simp add: strict_sorted_iff)
  then have "sorted_wrt (\<lambda>x y. k x < k y) xs" by (simp add: sorted_wrt_map)
  then have "sorted_wrt (\<lambda>x y. (k x, tie x) \<le> (k y, tie y)) xs"
    by (rule sorted_wrt_mono_rel[rotated]) auto
  then have "sorted (map (\<lambda>x. (k x, tie x)) xs)" by (simp add: sorted_map)
  then show ?thesis unfolding order_by_ties_def by (rule sort_key_id_if_sorted)
qed

lemma save_daily_analogs_row:
  assumes "row \<in> set (save_daily_analogs agg_order txt_order df k)"
  shows "analogs row = take k (order_by_ties a_distance agg_order
           (map (\<lambda>r. \<lparr>a_past_date = past_date r, a_snippet = snippet r, a_distance = distance r\<rparr>)
              (filter (\<lambda>r. key_of r = key_of row) df)))"
    and "analogs_txt row = array_to_string
           (map analog_line (order_by_ties a_distance txt_order (analogs row))) (nl @ ''- '')"
    and "key_of row \<in> set (map key_of df)"
  using assms unfolding save_daily_analogs_def by (auto simp: Let_def key_of_def)

lemma sorted_take_order_by_ties: "sorted (map k (take n (order_by_ties k tie xs)))"
  using sorted_order_by_ties[of k tie xs] by (simp add: take_map[symmetric] sorted_wrt_take)

lemma not_strictly_sorted_pair: "\<not> sorted_wrt (<) [x, x :: real]"
  by simp

lemma key_of_eq_iff: "key_of a = key_of b \<longleftrightarrow> same_key a b"
  by (auto simp: key_of_def same_key_def)

lemmas analog_run_defs =
  run_analog_searches_def sim_query_def fn_similar_to_day_def excerpt_def strip_urls_def
  url_match_length_def is_space_def save_daily_analogs_def order_by_ties_def key_of_def
  array_to_string_def analog_line_def date_string_def digit_char_def nl_def
  example_embeddings_def example_search_def example_today_def example_ties_def example_flat_def
  ANALOG_TOPK_def ANALOG_SNIP_CHARS_def Let_def

text \<open>
  Claim C2.  Every row that \<open>run_analog_searches\<close> returns has \<open>past_date < event_date\<close>,
  whatever the vector search returns and for every anchor of \<open>today_for_analogs\<close>; and so
  has every analog of every row of \<open>daily_analogs\<close> built from them.
\<close>

theorem analogs_strictly_historical:
  "(\<forall>r \<in> set (run_analog_searches vs news_embeddings today_for_analogs analog_snip_chars analog_topk).
      past_date r < event_date r)
   \<and> (\<forall>row \<in> set (save_daily_analogs agg_order txt_order
                     (run_analog_searches vs news_embeddings today_for_analogs analog_snip_chars analog_topk)
                     k).
        \<forall>a \<in> set (analogs row). a_past_date a < event_date row)"
proof (intro conjI ballI)
  fix r assume "r \<in> set (run_analog_searches vs news_embeddings today_for_analogs analog_snip_chars analog_topk)"
  then show "past_date r < event_date r" by (rule run_analog_searches_row(1))
next
  let ?df = "run_analog_searches vs news_embeddings today_for_analogs analog_snip_chars analog_topk"
  fix row a assume row: "row \<in> set (save_daily_analogs agg_order txt_order ?df k)" and a: "a \<in> set (analogs row)"
  from a have "a \<in> set (map (\<lambda>r. \<lparr>a_past_date = past_date r, a_snippet = snippet r, a_distance = distance r\<rparr>)
              (filter (\<lambda>r. key_of r = key_of row) ?df))"
    unfolding save_daily_analogs_row(1)[OF row] by (auto dest: in_set_takeD)
  then obtain r where r: "r \<in> set ?df" "key_of r = key_of row" "a_past_date a = past_date r"
    by auto
  from run_analog_searches_row(1)[OF r(1)] r(2,3) show "a_past_date a < event_date row"
    by (simp add: key_of_def)
qed

theorem analogs_strictly_historical_witness:
  "run_analog_searches example_search example_embeddings example_today ANALOG_SNIP_CHARS ANALOG_TOPK
     = [\<lparr>event_date = (2024, 1, 10), country = ''US'', past_date = (2024, 1, 8),
         snippet = Some ''Country: US | Date: 2024-01-08'', distance = 1 / 10\<rparr>,
        \<lparr>event_date = (2024, 1, 10), country = ''US'', past_date = (2024, 1, 9),
         snippet = Some ''Country: US | Date: 2024-01-09 | Sample URLs: '', distance = 3 / 10\<rparr>]
   \<and> past_date \<lparr>event_date = (2024, 1, 10), country = ''US'', past_date = (2024, 1, 8),
         snippet = Some ''Country: US | Date: 2024-01-08'', distance = 1 / 10\<rparr>
       < event_date \<lparr>event_date = (2024, 1, 10), country = ''US'', past_date = (2024, 1, 8),
         snippet = Some ''Country: US | Date: 2024-01-08'', distance = 1 / 10 :: real\<rparr>"
proof -
  let ?r = "\<lparr>event_date = (2024, 1, 10), country = ''US'', past_date = (2024, 1, 8),
         snippet = Some ''Country: US | Date: 2024-01-08'', distance = 1 / 10 :: real\<rparr>"
  have run: "run_analog_searches example_search example_embeddings example_today ANALOG_SNIP_CHARS ANALOG_TOPK
     = [?r,
        \<lparr>event_date = (2024, 1, 10), country = ''US'', past_date = (2024, 1, 9),
         snippet = Some ''Country: US | Date: 2024-01-09 | Sample URLs: '', distance = 3 / 10\<rparr>]"
    by code_simp
  then have m: "?r \<in> set (run_analog_searches example_search example_embeddings example_today
                   ANALOG_SNIP_CHARS ANALOG_TOPK)"
    by simp
  have "past_date ?r < event_date ?r"
    by (rule analogs_strictly_historical[THEN conjunct1, rule_format, OF m])
  with run show ?thesis by (intro conjI)
qed

text \<open>
  Claim C3, as amended.  Every row of \<open>daily_analogs\<close> has at most K analogs (at most 5
  with the default of the stage), in ascending order of distance where analogs at the same
  distance may follow each other.  \<open>analogs_txt\<close> joins, with a line feed and \<open>"- "\<close>
  between them, the lines \<open>"{past_date}: {snippet}"\<close> of the analogs of the array, taken in
  an ascending order of distance; that order is the order of the array when no two analogs
  of the array have the same distance.  This holds for every order that the engine may
  give to equal distances in either sort.
\<close>

theorem daily_analogs_ranked:
  "(\<forall>row \<in> set (save_daily_analogs agg_order txt_order df k).
      length (analogs row) \<le> k
      \<and> sorted (map a_distance (analogs row))
      \<and> (\<exists>ys. mset ys = mset (analogs row) \<and> sorted (map a_distance ys)
            \<and> analogs_txt row = array_to_string (map analog_line ys) (nl @ ''- ''))
      \<and> (distinct (map a_distance (analogs row)) \<longrightarrow>
            analogs_txt row = array_to_string (map analog_line (analogs row)) (nl @ ''- '')))
   \<and> (\<forall>row \<in> set (save_daily_analogs agg_order txt_order df ANALOG_TOPK).
         length (analogs row) \<le> 5)"
proof (intro conjI ballI impI)
  fix row assume row: "row \<in> set (save_daily_analogs agg_order txt_order df k)"
  note a = save_daily_analogs_row[OF row]
  show "length (analogs row) \<le> k" unfolding a(1) by simp
  show s: "sorted (map a_distance (analogs row))"
    unfolding a(1) by (rule sorted_take_order_by_ties)
  show "\<exists>ys. mset ys = mset (analogs row) \<and> sorted (map a_distance ys)
            \<and> analogs_txt row = array_to_string (map analog_line ys) (nl @ ''- '')"
    by (rule exI[of _ "order_by_ties a_distance txt_order (analogs row)"])
       (simp add: a(2) sorted_order_by_ties)
  show "analogs_txt row = array_to_string (map analog_line (analogs row)) (nl @ ''- '')"
    if "distinct (map a_distance (analogs row))"
    unfolding a(2) order_by_ties_id[OF s that] ..
next
  fix row assume row: "row \<in> set (save_daily_analogs agg_order txt_order df ANALOG_TOPK)"
  show "length (analogs row) \<le> 5"
    unfolding save_daily_analogs_row(1)[OF row] by (simp add: ANALOG_TOPK_def)
qed

theorem daily_analogs_ranked_witness:
  "\<lparr>event_date = (2024, 1, 10), country = ''US'',
     analogs = [\<lparr>a_past_date = (2024, 1, 8), a_snippet = Some ''Country: US | Date: 2024-01-08'',
                 a_distance = 1 / 10\<rparr>,
                \<lparr>a_past_date = (2024, 1, 9), a_snippet = Some ''Country: US | Date: 2024-01-09'',
                 a_distance = 3 / 10\<rparr>],
     analogs_txt = ''2024-01-08: Country: US | Date: 2024-01-08'' @ nl
                   @ ''- 2024-01-09: Country: US | Date: 2024-01-09''\<rparr>
     \<in> set (save_daily_analogs (\<lambda>a. 0) (\<lambda>a. 0) example_flat ANALOG_TOPK)
   \<and> distinct [1 / 10, 3 / 10 :: real]
   \<and> sorted [1 / 10, 3 / 10 :: real]
   \<and> ''2024-01-08: Country: US | Date: 2024-01-08'' @ nl
       @ ''- 2024-01-09: Country: US | Date: 2024-01-09''
       = array_to_string (map analog_line
           [\<lparr>a_past_date = (2024, 1, 8), a_snippet = Some ''Country: US | Date: 2024-01-08'',
             a_distance = 1 / 10 :: real\<rparr>,
            \<lparr>a_past_date = (2024, 1, 9), a_snippet = Some ''Country: US | Date: 2024-01-09'',
             a_distance = 3 / 10\<rparr>]) (nl @ ''- '')"
proof -
  let ?row = "\<lparr>event_date = (2024, 1, 10), country = ''US'',
     analogs = [\<lparr>a_past_date = (2024, 1, 8), a_snippet = Some ''Country: US | Date: 2024-01-08'',
                 a_distance = 1 / 10 :: real\<rparr>,
                \<lparr>a_past_date = (2024, 1, 9), a_snippet = Some ''Country: US | Date: 2024-01-09'',
                 a_distance = 3 / 10\<rparr>],
     analogs_txt = ''2024-01-08: Country: US | Date: 2024-01-08'' @ nl
                   @ ''- 2024-01-09: Country: US | Date: 2024-01-09''\<rparr>"
  have m: "?row \<in> set (save_daily_analogs (\<lambda>a. 0) (\<lambda>a. 0) example_flat ANALOG_TOPK)"
    by (simp add: analog_run_defs)
  have d: "distinct (map a_distance (analogs ?row))" by simp
  note t = daily_analogs_ranked[THEN conjunct1, THEN bspec, OF m]
  from t have s: "sorted (map a_distance (analogs ?row))" by blast
  from t d have "analogs_txt ?row = array_to_string (map analog_line (analogs ?row)) (nl @ ''- '')"
    by blast
  with m d s show ?thesis by simp
qed

text \<open>
  The claim as the specification words it fails in two ways.  Two analogs of one
  country-day at the same distance both stay in the array, side by side, so the array is
  not strictly ascending.  And for such a pair the two sorts are free to differ: when the
  sort of the text ranks the analog of 8 January first, the array lists 9 January before
  8 January while the text lists 8 January before 9 January.
\<close>

theorem daily_analogs_not_strictly_ascending:
  "map (\<lambda>row. map a_distance (analogs row))
       (save_daily_analogs (\<lambda>a. 0) (\<lambda>a. 0) example_ties ANALOG_TOPK)
     = [[1 / 4, 1 / 4]]
   \<and> \<not> sorted_wrt (<) [1 / 4, 1 / 4 :: real]
   \<and> map (\<lambda>row. map a_past_date (analogs row))
       (save_daily_analogs (\<lambda>a. 0) (\<lambda>a. if a_past_date a = (2024, 1, 8) then 0 else 1)
          example_ties ANALOG_TOPK)
     = [[(2024, 1, 9), (2024, 1, 8)]]
   \<and> map analogs_txt
       (save_daily_analogs (\<lambda>a. 0) (\<lambda>a. if a_past_date a = (2024, 1, 8) then 0 else 1)
          example_ties ANALOG_TOPK)
     = [''2024-01-08: Country: US | Date: 2024-01-08'' @ nl
        @ ''- 2024-01-09: Country: US | Date: 2024-01-09'']"
proof (intro conjI)
  show "map (\<lambda>row. map a_distance (analogs row))
       (save_daily_analogs (\<lambda>a. 0) (\<lambda>a. 0) example_ties ANALOG_TOPK)
     = [[1 / 4, 1 / 4]]"
    by (simp add: analog_run_defs)
  show "\<not> sorted_wrt (<) [1 / 4, 1 / 4 :: real]"
    by (rule not_strictly_sorted_pair)
  show "map (\<lambda>row. map a_past_date (analogs row))
       (save_daily_analogs (\<lambda>a. 0) (\<lambda>a. if a_past_date a = (2024, 1, 8) then 0 else 1)
          example_ties ANALOG_TOPK)
     = [[(2024, 1, 9), (2024, 1, 8)]]"
    by (simp add: analog_run_defs)
  show "map analogs_txt
       (save_daily_analogs (\<lambda>a. 0) (\<lambda>a. if a_past_date a = (2024, 1, 8) then 0 else 1)
          example_ties ANALOG_TOPK)
     = [''2024-01-08: Country: US | Date: 2024-01-08'' @ nl
        @ ''- 2024-01-09: Country: US | Date: 2024-01-09'']"
    by (simp add: analog_run_defs)
qed

section \<open>Properties of the briefing stage\<close>

lemma coalesce_Some_iff:
  "coalesce xs = Some v \<longleftrightarrow> (\<exists>i<length xs. xs ! i = Some v \<and> (\<forall>k<i. xs ! k = None))"
proof (induction xs rule: coalesce.induct)
  case 1
  then show ?case by simp
next
  case (2 w xs)
  show ?case
  proof
    assume "coalesce (Some w # xs) = Some v"
    then have "(Some w # xs) ! 0 = Some v \<and> (\<forall>k<0. (Some w # xs) ! k = None)" by simp
    then show "\<exists>i<length (Some w # xs). (Some w # xs) ! i = Some v \<and> (\<forall>k<i. (Some w # xs) ! k = None)"
      by (intro exI[of _ 0]) simp
  next
    assume "\<exists>i<length (Some w # xs). (Some w # xs) ! i = Some v \<and> (\<forall>k<i. (Some w # xs) ! k = None)"
    then obtain i where i: "(Some w # xs) ! i = Some v" "\<forall>k<i. (Some w # xs) ! k = None" by blast
    have "i = 0"
    proof (rule ccontr)
      assume "i \<noteq> 0"
      then have "0 < i" by simp
      with i(2) have "(Some w # xs) ! 0 = None" by blast
      then show False by simp
    qed
    with i(1) show "coalesce (Some w # xs) = Some v" by simp
  qed
next
  case (3 xs)
  show ?case
  proof
    assume "coalesce (None # xs) = Some v"
    with 3 obtain i where i: "i < length xs" "xs ! i = Some v" "\<forall>k<i. xs ! k = None" by auto
    have "\<forall>k<Suc i. (None # xs) ! k = None"
    proof (intro allI impI)
      fix k assume "k < Suc i"
      with i(3) show "(None # xs) ! k = None" by (cases k) auto
    qed
    with i(1,2) show "\<exists>i<length (None # xs). (None # xs) ! i = Some v \<and> (\<forall>k<i. (None # xs) ! k = None)"
      by (intro exI[of _ "Suc i"]) simp
  next
    assume "\<exists>i<length (None # xs). (None # xs) ! i = Some v \<and> (\<forall>k<i. (None # xs) ! k = None)"
    then obtain i where i: "i < length (None # xs)" "(None # xs) ! i = Some v"
      "\<forall>k<i. (None # xs) ! k = None" by blast
    from i(2) obtain i' where i': "i = Suc i'" by (cases i) auto
    have "\<forall>k<i'. xs ! k = None"
    proof (intro allI impI)
      fix k assume "k < i'"
      then have "Suc k < i" using i' by simp
      with i(3) have "(None # xs) ! Suc k = None" by blast
      then show "xs ! k = None" by simp
    qed
    with i(1,2) i' have "\<exists>i<length xs. xs ! i = Some v \<and> (\<forall>k<i. xs ! k = None)"
      by (intro exI[of _ i']) simp
    with 3 show "coalesce (None # xs) = Some v" by simp
  qed
qed

lemma coalesce_None_iff: "coalesce xs = None \<longleftrightarrow> (\<forall>x \<in> set xs. x = None)"
  by (induction xs rule: coalesce.induct) auto

lemma length_briefing_candidates [simp]: "length (briefing_candidates t jv) = 5"
  by (simp add: briefing_candidates_def)

lemma same_key_briefing_prompt [simp]: "same_key a (briefing_prompt b) = same_key a b"
  by (simp add: same_key_def briefing_prompt_def)

lemma same_key_refl [simp]: "same_key a a"
  by (simp add: same_key_def)

lemma in_llm:
  "x \<in> set (llm gen temp max_tokens rows) \<longleftrightarrow>
     (\<exists>s \<in> set rows. \<exists>n \<in> set rows. same_key s n \<and>
        x = \<lparr>event_date = event_date s, country = country s,
             la_llm_text = ml_generate_text_llm_result
               (gen \<lparr>temperature = temp, max_output_tokens = max_tokens, flatten_json_output = True\<rparr>
                  (briefing_prompt n)),
             j = t_json
               (gen \<lparr>temperature = temp, max_output_tokens = max_tokens, flatten_json_output = True\<rparr>
                  (briefing_prompt n))\<rparr>)"
  unfolding llm_def generate_text_def
  by (force simp: set_inner_join)

lemma in_final:
  "r \<in> set (final rows) \<longleftrightarrow>
     (\<exists>x \<in> set rows. coalesce (briefing_candidates (la_llm_text x) (j x)) = Some (briefing_text r)
        \<and> event_date r = event_date x \<and> country r = country x)"
  unfolding final_def by (cases r) (force split: option.splits)

lemma briefing_row_origin:
  assumes "r \<in> set (create_daily_briefings gen nt np dct ents da top_n cc mt temp)"
  shows "\<exists>n \<in> set (normalized nt np (to_summarize dct ents da top_n cc)).
           same_key n r \<and>
           coalesce (briefing_candidates
             (ml_generate_text_llm_result
                (gen \<lparr>temperature = temp, max_output_tokens = mt, flatten_json_output = True\<rparr>
                   (briefing_prompt n)))
             (t_json
                (gen \<lparr>temperature = temp, max_output_tokens = mt, flatten_json_output = True\<rparr>
                   (briefing_prompt n)))) = Some (briefing_text r)"
proof -
  let ?N = "normalized nt np (to_summarize dct ents da top_n cc)"
  from assms obtain x where x: "x \<in> set (llm gen temp mt ?N)"
    and c: "coalesce (briefing_candidates (la_llm_text x) (j x)) = Some (briefing_text r)"
    and k: "event_date r = event_date x" "country r = country x"
    unfolding create_daily_briefings_def in_final by blast
  from x obtain s n where n: "s \<in> set ?N" "n \<in> set ?N" "same_key s n"
    and xe: "x = \<lparr>event_date = event_date s, country = country s,
             la_llm_text = ml_generate_text_llm_result
               (gen \<lparr>temperature = temp, max_output_tokens = mt, flatten_json_output = True\<rparr>
                  (briefing_prompt n)),
             j = t_json
               (gen \<lparr>temperature = temp, max_output_tokens = mt, flatten_json_output = True\<rparr>
                  (briefing_prompt n))\<rparr>"
    unfolding in_llm by blast
  have "same_key n r" using n(3) k xe by (simp add: same_key_def)
  moreover from c xe have "coalesce (briefing_candidates
             (ml_generate_text_llm_result
                (gen \<lparr>temperature = temp, max_output_tokens = mt, flatten_json_output = True\<rparr>
                   (briefing_prompt n)))
             (t_json
                (gen \<lparr>temperature = temp, max_output_tokens = mt, flatten_json_output = True\<rparr>
                   (briefing_prompt n)))) = Some (briefing_text r)" by simp
  ultimately show ?thesis using n(2) by blast
qed

lemma briefing_row_present:
  assumes "n \<in> set (normalized nt np (to_summarize dct ents da top_n cc))"
    and "coalesce (briefing_candidates
             (ml_generate_text_llm_result
                (gen \<lparr>temperature = temp, max_output_tokens = mt, flatten_json_output = True\<rparr>
                   (briefing_prompt n)))
             (t_json
                (gen \<lparr>temperature = temp, max_output_tokens = mt, flatten_json_output = True\<rparr>
                   (briefing_prompt n)))) = Some txt"
  shows "\<lparr>event_date = event_date n, country = country n, briefing_text = txt\<rparr>
           \<in> set (create_daily_briefings gen nt np dct ents da top_n cc mt temp)"
proof -
  let ?N = "normalized nt np (to_summarize dct ents da top_n cc)"
  let ?x = "\<lparr>event_date = event_date n, country = country n,
             la_llm_text = ml_generate_text_llm_result
               (gen \<lparr>temperature = temp, max_output_tokens = mt, flatten_json_output = True\<rparr>
                  (briefing_prompt n)),
             j = t_json
               (gen \<lparr>temperature = temp, max_output_tokens = mt, flatten_json_output = True\<rparr>
                  (briefing_prompt n))\<rparr>"
  have "?x \<in> set (llm gen temp mt ?N)"
    unfolding in_llm using assms(1) by (intro bexI[of _ n]) auto
  then show ?thesis
    unfolding create_daily_briefings_def in_final using assms(2) by (intro bexI[of _ ?x]) auto
qed

text \<open>
  Claim C4.  For every row of \<open>daily_briefings\<close> there is a row of \<open>normalized\<close> with the
  same (event_date, country) such that, among the five candidates read from the model's
  answer to its prompt (the result column, the two multi-candidate JSON paths, the
  predictions path, the text path, in this order), \<open>briefing_text\<close> is the candidate at
  some position \<open>i\<close> while every candidate before \<open>i\<close> is \<open>NULL\<close>.  When all five candidates
  are \<open>NULL\<close> for every answer of a key, \<open>daily_briefings\<close> has no row of that key.
\<close>

theorem briefing_text_first_non_null:
  "(\<forall>r \<in> set (create_daily_briefings gen nice_themes nice_people dct ents daily_analogs
                  top_n context_chars max_tokens temp).
      \<exists>n \<in> set (normalized nice_themes nice_people
                   (to_summarize dct ents daily_analogs top_n context_chars)).
        same_key n r \<and>
        (\<exists>i<5.
           briefing_candidates
             (ml_generate_text_llm_result
                (gen \<lparr>temperature = temp, max_output_tokens = max_tokens, flatten_json_output = True\<rparr>
                   (briefing_prompt n)))
             (t_json
                (gen \<lparr>temperature = temp, max_output_tokens = max_tokens, flatten_json_output = True\<rparr>
                   (briefing_prompt n))) ! i = Some (briefing_text r)
           \<and> (\<forall>k<i.
                 briefing_candidates
                   (ml_generate_text_llm_result
                      (gen \<lparr>temperature = temp, max_output_tokens = max_tokens, flatten_json_output = True\<rparr>
                         (briefing_prompt n)))
                   (t_json
                      (gen \<lparr>temperature = temp, max_output_tokens = max_tokens, flatten_json_output = True\<rparr>
                         (briefing_prompt n))) ! k = None)))
   \<and> ((\<forall>n \<in> set (normalized nice_themes nice_people
                     (to_summarize dct ents daily_analogs top_n context_chars)).
          same_key n key \<longrightarrow>
          (\<forall>c \<in> set (briefing_candidates
                        (ml_generate_text_llm_result
                           (gen \<lparr>temperature = temp, max_output_tokens = max_tokens, flatten_json_output = True\<rparr>
                              (briefing_prompt n)))
                        (t_json
                           (gen \<lparr>temperature = temp, max_output_tokens = max_tokens, flatten_json_output = True\<rparr>
                              (briefing_prompt n)))). c = None))
        \<longrightarrow> \<not> (\<exists>r \<in> set (create_daily_briefings gen nice_themes nice_people dct ents daily_analogs
                              top_n context_chars max_tokens temp). same_key r key))"
proof (intro conjI ballI impI)
  fix r assume "r \<in> set (create_daily_briefings gen nice_themes nice_people dct ents daily_analogs
                  top_n context_chars max_tokens temp)"
  from briefing_row_origin[OF this] obtain n where
    n: "n \<in> set (normalized nice_themes nice_people (to_summarize dct ents daily_analogs top_n context_chars))"
      "same_key n r"
    and c: "coalesce (briefing_candidates
             (ml_generate_text_llm_result
                (gen \<lparr>temperature = temp, max_output_tokens = max_tokens, flatten_json_output = True\<rparr>
                   (briefing_prompt n)))
             (t_json
                (gen \<lparr>temperature = temp, max_output_tokens = max_tokens, flatten_json_output = True\<rparr>
                   (briefing_prompt n)))) = Some (briefing_text r)"
    by blast
  from c[unfolded coalesce_Some_iff length_briefing_candidates] n
  show "\<exists>n \<in> set (normalized nice_themes nice_people
                   (to_summarize dct ents daily_analogs top_n context_chars)).
        same_key n r \<and>
        (\<exists>i<5.
           briefing_candidates
             (ml_generate_text_llm_result
                (gen \<lparr>temperature = temp, max_output_tokens = max_tokens, flatten_json_output = True\<rparr>
                   (briefing_prompt n)))
             (t_json
                (gen \<lparr>temperature = temp, max_output_tokens = max_tokens, flatten_json_output = True\<rparr>
                   (briefing_prompt n))) ! i = Some (briefing_text r)
           \<and> (\<forall>k<i.
                 briefing_candidates
                   (ml_generate_text_llm_result
                      (gen \<lparr>temperature = temp, max_output_tokens = max_tokens, flatten_json_output = True\<rparr>
                         (briefing_prompt n)))
                   (t_json
                      (gen \<lparr>temperature = temp, max_output_tokens = max_tokens, flatten_json_output = True\<rparr>
                         (briefing_prompt n))) ! k = None))"
    by blast
next
  assume a: "\<forall>n \<in> set (normalized nice_themes nice_people
                     (to_summarize dct ents daily_analogs top_n context_chars)).
          same_key n key \<longrightarrow>
          (\<forall>c \<in> set (briefing_candidates
                        (ml_generate_text_llm_result
                           (gen \<lparr>temperature = temp, max_output_tokens = max_tokens, flatten_json_output = True\<rparr>
                              (briefing_prompt n)))
                        (t_json
                           (gen \<lparr>temperature = temp, max_output_tokens = max_tokens, flatten_json_output = True\<rparr>
                              (briefing_prompt n)))). c = None)"
  show "\<not> (\<exists>r \<in> set (create_daily_briefings gen nice_themes nice_people dct ents daily_analogs
                              top_n context_chars max_tokens temp). same_key r key)"
  proof
    assume "\<exists>r \<in> set (create_daily_briefings gen nice_themes nice_people dct ents daily_analogs
                              top_n context_chars max_tokens temp). same_key r key"
    then obtain r where r: "r \<in> set (create_daily_briefings gen nice_themes nice_people dct ents
                              daily_analogs top_n context_chars max_tokens temp)"
      and k: "same_key r key" by blast
    from briefing_row_origin[OF r] obtain n where
      n: "n \<in> set (normalized nice_themes nice_people (to_summarize dct ents daily_analogs top_n context_chars))"
        "same_key n r"
      and c: "coalesce (briefing_candidates
             (ml_generate_text_llm_result
                (gen \<lparr>temperature = temp, max_output_tokens = max_tokens, flatten_json_output = True\<rparr>
                   (briefing_prompt n)))
             (t_json
                (gen \<lparr>temperature = temp, max_output_tokens = max_tokens, flatten_json_output = True\<rparr>
                   (briefing_prompt n)))) = Some (briefing_text r)"
      by blast
    from n(2) k have "same_key n key" by (simp add: same_key_def)
    with a n(1) have "coalesce (briefing_candidates
             (ml_generate_text_llm_result
                (gen \<lparr>temperature = temp, max_output_tokens = max_tokens, flatten_json_output = True\<rparr>
                   (briefing_prompt n)))
             (t_json
                (gen \<lparr>temperature = temp, max_output_tokens = max_tokens, flatten_json_output = True\<rparr>
                   (briefing_prompt n)))) = None"
      unfolding coalesce_None_iff by blast
    with c show False by simp
  qed
qed


theorem briefing_text_first_non_null_witness:
  "\<lparr>event_date = (2024, 1, 10), country = ''FR'', briefing_text = ''from predictions''\<rparr>
     \<in> set (create_daily_briefings example_json_generator (\<lambda>s. s) (\<lambda>s. s)
              example_country_topics [] [] TOP_N CONTEXT_CHARS MAX_TOKENS TEMP)
   \<and> (\<exists>n \<in> set (normalized (\<lambda>s. s) (\<lambda>s. s)
                    (to_summarize example_country_topics [] [] TOP_N CONTEXT_CHARS)).
        same_key n \<lparr>event_date = (2024, 1, 10), country = ''FR''\<rparr> \<and>
        (\<exists>i<5.
           briefing_candidates
             (ml_generate_text_llm_result
                (example_json_generator
                   \<lparr>temperature = TEMP, max_output_tokens = MAX_TOKENS, flatten_json_output = True\<rparr>
                   (briefing_prompt n)))
             (t_json
                (example_json_generator
                   \<lparr>temperature = TEMP, max_output_tokens = MAX_TOKENS, flatten_json_output = True\<rparr>
                   (briefing_prompt n))) ! i = Some ''from predictions''
           \<and> (\<forall>k<i.
                 briefing_candidates
                   (ml_generate_text_llm_result
                      (example_json_generator
                         \<lparr>temperature = TEMP, max_output_tokens = MAX_TOKENS, flatten_json_output = True\<rparr>
                         (briefing_prompt n)))
                   (t_json
                      (example_json_generator
                         \<lparr>temperature = TEMP, max_output_tokens = MAX_TOKENS, flatten_json_output = True\<rparr>
                         (briefing_prompt n))) ! k = None)))
   \<and> briefing_candidates None
        (Some (JObj [(''predictions'', JArr [JObj [(''content'', JStr ''from predictions'')]]),
                     (''text'', JStr ''from text'')]))
       = [None, None, None, Some ''from predictions'', Some ''from text'']"
proof -
  have m: "\<lparr>event_date = (2024, 1, 10), country = ''FR'', briefing_text = ''from predictions''\<rparr>
     \<in> set (create_daily_briefings example_json_generator (\<lambda>s. s) (\<lambda>s. s)
              example_country_topics [] [] TOP_N CONTEXT_CHARS MAX_TOKENS TEMP)"
    by code_simp
  have c: "briefing_candidates None
        (Some (JObj [(''predictions'', JArr [JObj [(''content'', JStr ''from predictions'')]]),
                     (''text'', JStr ''from text'')]))
       = [None, None, None, Some ''from predictions'', Some ''from text'']"
    by (simp add: briefing_candidates_def json_value_def)
  from briefing_text_first_non_null[THEN conjunct1, THEN bspec, OF m]
  have "\<exists>n \<in> set (normalized (\<lambda>s. s) (\<lambda>s. s)
                    (to_summarize example_country_topics [] [] TOP_N CONTEXT_CHARS)).
        same_key n \<lparr>event_date = (2024, 1, 10), country = ''FR''\<rparr> \<and>
        (\<exists>i<5.
           briefing_candidates
             (ml_generate_text_llm_result
                (example_json_generator
                   \<lparr>temperature = TEMP, max_output_tokens = MAX_TOKENS, flatten_json_output = True\<rparr>
                   (briefing_prompt n)))
             (t_json
                (example_json_generator
                   \<lparr>temperature = TEMP, max_output_tokens = MAX_TOKENS, flatten_json_output = True\<rparr>
                   (briefing_prompt n))) ! i = Some ''from predictions''
           \<and> (\<forall>k<i.
                 briefing_candidates
                   (ml_generate_text_llm_result
                      (example_json_generator
                         \<lparr>temperature = TEMP, max_output_tokens = MAX_TOKENS, flatten_json_output = True\<rparr>
                         (briefing_prompt n)))
                   (t_json
                      (example_json_generator
                         \<lparr>temperature = TEMP, max_output_tokens = MAX_TOKENS, flatten_json_output = True\<rparr>
                         (briefing_prompt n))) ! k = None))"
    by (simp add: same_key_def)
  with m c show ?thesis by (intro conjI)
qed

section \<open>A country without historical candidates\<close>

lemma left_join_Cons:
  "left_join p (l # ls) rs =
     (case filter (p l) rs of [] \<Rightarrow> [(l, None)] | m # ms \<Rightarrow> map (\<lambda>r. (l, Some r)) (m # ms))
     @ left_join p ls rs"
  by (simp add: left_join_def)

lemma left_join_fst:
  assumes "\<forall>l \<in> set ls. length (filter (p l) rs) \<le> 1"
  shows "map fst (left_join p ls rs) = ls"
  using assms
proof (induction ls)
  case Nil
  then show ?case by (simp add: left_join_def)
next
  case (Cons l ls)
  then have 1: "length (filter (p l) rs) \<le> 1" and 2: "map fst (left_join p ls rs) = ls" by auto
  from 1 have "map fst (case filter (p l) rs of [] \<Rightarrow> [(l, None)]
                 | m # ms \<Rightarrow> map (\<lambda>r. (l, Some r)) (m # ms)) = [l]"
    by (cases "filter (p l) rs") auto
  with 2 show ?case by (simp add: left_join_Cons)
qed

lemma distinct_key_filter:
  "distinct (map f xs) \<Longrightarrow> length (filter (\<lambda>x. f x = v) xs) \<le> 1"
proof (induction xs)
  case Nil
  then show ?case by simp
next
  case (Cons x xs)
  show ?case
  proof (cases "f x = v")
    case True
    from Cons.prems have "f x \<notin> f ` set xs" by simp
    with True have "\<forall>y \<in> set xs. f y \<noteq> v" by blast
    then have "filter (\<lambda>x. f x = v) xs = []"
      by (simp add: filter_empty_conv)
    with True show ?thesis by simp
  next
    case False
    with Cons show ?thesis by simp
  qed
qed

lemma insort_key_map:
  "map f (insort_key (\<lambda>x. k (f x)) a xs) = insort_key k (f a) (map f xs)"
  by (induction xs) auto

lemma sort_key_map:
  "map f (sort_key (\<lambda>x. k (f x)) xs) = sort_key k (map f xs)"
  by (induction xs) (auto simp: insort_key_map)

lemma order_by_desc_map:
  "map f (order_by_desc (\<lambda>x. k (f x)) xs) = order_by_desc k (map f xs)"
proof -
  have "map f (rev (sort_key (\<lambda>x. k (f x)) (rev xs))) = rev (map f (sort_key (\<lambda>x. k (f x)) (rev xs)))"
    by (simp add: rev_map)
  also have "\<dots> = rev (sort_key k (map f (rev xs)))"
    by (simp only: sort_key_map)
  also have "\<dots> = rev (sort_key k (rev (map f xs)))"
    by (simp add: rev_map)
  finally show ?thesis unfolding order_by_desc_def .
qed

lemma key_of_keyed [simp]: "key_of (k :: keyed) = k"
  by (cases k) (simp add: key_of_def)

lemma distinct_keys_save_daily_analogs: "distinct (map key_of (save_daily_analogs agg_order txt_order df k))"
proof -
  have "map key_of (save_daily_analogs agg_order txt_order df k) = map key_of (remdups (map key_of df))"
    unfolding save_daily_analogs_def by (simp add: Let_def key_of_def comp_def)
  also have "\<dots> = remdups (map key_of df)"
    by (rule map_idI) simp
  finally have "map key_of (save_daily_analogs agg_order txt_order df k) = remdups (map key_of df)" .
  then show ?thesis by simp
qed

lemma to_summarize_keys:
  assumes "distinct (map key_of da)"
  shows "map key_of (to_summarize dct ents da top_n cc) =
         map (\<lambda>x. key_of (fst x)) (take top_n (order_by_desc (\<lambda>x. headline_count (fst x))
            (left_join same_key
                (filter (\<lambda>r. Some (event_date r) = max_date (map event_date dct)) dct) ents)))"
proof -
  let ?J = "left_join same_key
                (filter (\<lambda>r. Some (event_date r) = max_date (map event_date dct)) dct) ents"
  let ?L = "left_join (\<lambda>(d, ent) an. same_key d an) ?J da"
  have u: "\<forall>l \<in> set ?J. length (filter ((\<lambda>(d, ent) an. same_key d an) l) da) \<le> 1"
  proof
    fix l assume "l \<in> set ?J"
    obtain d ent where l: "l = (d, ent)" by (cases l)
    have "filter (same_key d) da = filter (\<lambda>a. key_of a = key_of d) da"
      by (rule filter_cong) (auto simp: key_of_def same_key_def)
    with distinct_key_filter[OF assms, of "key_of d"] l
    show "length (filter ((\<lambda>(d, ent) an. same_key d an) l) da) \<le> 1" by simp
  qed
  have k: "(\<lambda>((d, ent), an). headline_count d) = (\<lambda>x. (\<lambda>y. headline_count (fst y)) (fst x))"
    by (auto simp: fun_eq_iff)
  have "map key_of (to_summarize dct ents da top_n cc) =
        map (\<lambda>x. key_of (fst (fst x))) (take top_n (order_by_desc (\<lambda>((d, ent), an). headline_count d) ?L))"
    unfolding to_summarize_def by (simp add: key_of_def case_prod_beta)
  also have "\<dots> = map (\<lambda>x. key_of (fst x)) (take top_n (map fst
                 (order_by_desc (\<lambda>x. (\<lambda>y. headline_count (fst y)) (fst x)) ?L)))"
    unfolding k by (simp add: take_map)
  also have "\<dots> = map (\<lambda>x. key_of (fst x)) (take top_n
                 (order_by_desc (\<lambda>y. headline_count (fst y)) (map fst ?L)))"
    using order_by_desc_map[of fst "\<lambda>y. headline_count (fst y)" ?L] by simp
  also have "map fst ?L = ?J" by (rule left_join_fst[OF u])
  finally show ?thesis .
qed

lemma in_to_summarize:
  assumes "x \<in> set (to_summarize dct ents da top_n cc)"
  shows "ts_analogs_txt x = None \<or> (\<exists>a \<in> set da. same_key x a)"
proof -
  let ?J = "left_join same_key
                (filter (\<lambda>r. Some (event_date r) = max_date (map event_date dct)) dct) ents"
  from assms obtain d ent an where
    m: "((d, ent), an) \<in> set (take top_n (order_by_desc (\<lambda>((d, ent), an). headline_count d)
          (left_join (\<lambda>(d, ent) an. same_key d an) ?J da)))"
    and x: "event_date x = event_date d" "country x = country d" "ts_analogs_txt x = map_option analogs_txt an"
    unfolding to_summarize_def by auto
  from m have "((d, ent), an) \<in> set (left_join (\<lambda>(d, ent) an. same_key d an) ?J da)"
    by (auto dest: in_set_takeD simp: order_by_desc_def)
  then have "case an of None \<Rightarrow> True | Some a \<Rightarrow> a \<in> set da \<and> same_key d a"
    by (auto simp: in_left_join split: option.splits)
  with x show ?thesis by (cases an) (auto simp: same_key_def)
qed

lemma in_normalized:
  "n \<in> set (normalized nt np rows) \<Longrightarrow>
     \<exists>x \<in> set rows. same_key n x \<and>
        nz_analogs_txt n = (case ts_analogs_txt x of None \<Rightarrow> ''None'' | Some v \<Rightarrow> v)"
  unfolding normalized_def by (auto simp: same_key_def split: option.splits)

lemma sim_query_empty:
  assumes "\<forall>c \<in> set (fn_similar_to_day vs emb c' d). \<not> event_date c < d"
  shows "sim_query vs emb snip topk c' d = []"
proof -
  from assms have "filter (\<lambda>c. event_date c < d) (fn_similar_to_day vs emb c' d) = []"
    by (simp add: filter_empty_conv)
  then show ?thesis by (simp add: sim_query_def)
qed

text \<open>
  Claim C9.  Let the search for the anchor of a country-day return no candidate dated
  before the anchor.  Then the query of \<open>run_analog_searches\<close> for that anchor returns no
  row (the empty analog list), the data frame and \<open>daily_analogs\<close> hold no row of its key,
  and every row of its key in \<open>normalized\<close>, the input of the briefing prompt, has
  \<open>analogs_txt = 'None'\<close>.  The country is not excluded for it: the keys selected by
  \<open>to_summarize\<close> are the same as with an empty analog table, and every row of
  \<open>normalized\<close> whose answer has a non-\<open>NULL\<close> candidate has its row in \<open>daily_briefings\<close>.
\<close>

theorem no_candidates_gives_None:
  fixes k :: keyed
  assumes zero: "\<forall>c \<in> set (fn_similar_to_day vs news_embeddings (country k) (event_date k)).
                   \<not> event_date c < event_date k"
  shows "sim_query vs news_embeddings analog_snip_chars analog_topk (country k) (event_date k) = []
     \<and> filter (\<lambda>r. same_key r k) (run_analog_searches vs news_embeddings today_for_analogs analog_snip_chars analog_topk) = []
     \<and> filter (\<lambda>row. same_key row k) (save_daily_analogs agg_order txt_order (run_analog_searches vs news_embeddings today_for_analogs analog_snip_chars analog_topk) k_top) = []
     \<and> (\<forall>n \<in> set (normalized nice_themes nice_people (to_summarize dct ents (save_daily_analogs agg_order txt_order (run_analog_searches vs news_embeddings today_for_analogs analog_snip_chars analog_topk) k_top) top_n context_chars)). same_key n k \<longrightarrow> nz_analogs_txt n = ''None'')
     \<and> map key_of (to_summarize dct ents (save_daily_analogs agg_order txt_order (run_analog_searches vs news_embeddings today_for_analogs analog_snip_chars analog_topk) k_top) top_n context_chars)
         = map key_of (to_summarize dct ents [] top_n context_chars)
     \<and> (\<forall>n \<in> set (normalized nice_themes nice_people (to_summarize dct ents (save_daily_analogs agg_order txt_order (run_analog_searches vs news_embeddings today_for_analogs analog_snip_chars analog_topk) k_top) top_n context_chars)). \<forall>txt.
           coalesce (briefing_candidates
               (ml_generate_text_llm_result (gen \<lparr>temperature = temp, max_output_tokens = max_tokens, flatten_json_output = True\<rparr> (briefing_prompt n)))
               (t_json (gen \<lparr>temperature = temp, max_output_tokens = max_tokens, flatten_json_output = True\<rparr> (briefing_prompt n)))) = Some txt \<longrightarrow>
           \<lparr>event_date = event_date n, country = country n, briefing_text = txt\<rparr>
             \<in> set (create_daily_briefings gen nice_themes nice_people dct ents (save_daily_analogs agg_order txt_order (run_analog_searches vs news_embeddings today_for_analogs analog_snip_chars analog_topk) k_top)
                      top_n context_chars max_tokens temp))"
proof (intro conjI ballI allI impI)
  show q: "sim_query vs news_embeddings analog_snip_chars analog_topk (country k) (event_date k) = []"
    by (rule sim_query_empty[OF zero])
  have df: "\<not> same_key r k" if "r \<in> set (run_analog_searches vs news_embeddings today_for_analogs analog_snip_chars analog_topk)" for r
  proof
    assume s: "same_key r k"
    from run_analog_searches_row(2)[OF that] obtain row :: keyed where
      "r \<in> set (sim_query vs news_embeddings analog_snip_chars analog_topk (country row) (event_date row))"
      "event_date r = event_date row" "country r = country row" by blast
    with s q show False by (simp add: same_key_def)
  qed
  then show "filter (\<lambda>r. same_key r k) (run_analog_searches vs news_embeddings today_for_analogs analog_snip_chars analog_topk) = []"
    by (simp add: filter_empty_conv)
  have da: "\<not> same_key row k" if "row \<in> set (save_daily_analogs agg_order txt_order (run_analog_searches vs news_embeddings today_for_analogs analog_snip_chars analog_topk) k_top)" for row
  proof
    assume s: "same_key row k"
    from save_daily_analogs_row(3)[OF that] obtain r where
      "r \<in> set (run_analog_searches vs news_embeddings today_for_analogs analog_snip_chars analog_topk)" "key_of r = key_of row" by auto
    with s df show False by (auto simp: key_of_def same_key_def)
  qed
  then show "filter (\<lambda>row. same_key row k) (save_daily_analogs agg_order txt_order (run_analog_searches vs news_embeddings today_for_analogs analog_snip_chars analog_topk) k_top) = []"
    by (simp add: filter_empty_conv)
  show "nz_analogs_txt n = ''None''" if n: "n \<in> set (normalized nice_themes nice_people (to_summarize dct ents (save_daily_analogs agg_order txt_order (run_analog_searches vs news_embeddings today_for_analogs analog_snip_chars analog_topk) k_top) top_n context_chars))" and s: "same_key n k" for n
  proof -
    from in_normalized[OF n] obtain x where
      x: "x \<in> set (to_summarize dct ents (save_daily_analogs agg_order txt_order (run_analog_searches vs news_embeddings today_for_analogs analog_snip_chars analog_topk) k_top) top_n context_chars)" "same_key n x"
      and t: "nz_analogs_txt n = (case ts_analogs_txt x of None \<Rightarrow> ''None'' | Some v \<Rightarrow> v)"
      by blast
    from in_to_summarize[OF x(1)] have "ts_analogs_txt x = None"
    proof
      assume "\<exists>a \<in> set (save_daily_analogs agg_order txt_order (run_analog_searches vs news_embeddings today_for_analogs analog_snip_chars analog_topk) k_top). same_key x a"
      then obtain a where "a \<in> set (save_daily_analogs agg_order txt_order (run_analog_searches vs news_embeddings today_for_analogs analog_snip_chars analog_topk) k_top)" "same_key x a" by blast
      with da[of a] x(2) s show ?thesis by (simp add: same_key_def)
    qed
    with t show ?thesis by simp
  qed
  show "map key_of (to_summarize dct ents (save_daily_analogs agg_order txt_order (run_analog_searches vs news_embeddings today_for_analogs analog_snip_chars analog_topk) k_top) top_n context_chars)
         = map key_of (to_summarize dct ents [] top_n context_chars)"
    by (simp add: to_summarize_keys distinct_keys_save_daily_analogs)
  show "\<lparr>event_date = event_date n, country = country n, briefing_text = tx\<rparr>
             \<in> set (create_daily_briefings gen nice_themes nice_people dct ents (save_daily_analogs agg_order txt_order (run_analog_searches vs news_embeddings today_for_analogs analog_snip_chars analog_topk) k_top)
                      top_n context_chars max_tokens temp)"
    if "n \<in> set (normalized nice_themes nice_people (to_summarize dct ents (save_daily_analogs agg_order txt_order (run_analog_searches vs news_embeddings today_for_analogs analog_snip_chars analog_topk) k_top) top_n context_chars))" "coalesce (briefing_candidates
               (ml_generate_text_llm_result (gen \<lparr>temperature = temp, max_output_tokens = max_tokens, flatten_json_output = True\<rparr> (briefing_prompt n)))
               (t_json (gen \<lparr>temperature = temp, max_output_tokens = max_tokens, flatten_json_output = True\<rparr> (briefing_prompt n)))) = Some tx" for n tx
    using that by (rule briefing_row_present)
qed

theorem no_candidates_gives_None_witness:
  "filter (\<lambda>row. same_key row \<lparr>event_date = (2024, 1, 10), country = ''FR''\<rparr>)
     (save_daily_analogs (\<lambda>a. 0) (\<lambda>a. 0)
        (run_analog_searches example_search example_embeddings example_today
           ANALOG_SNIP_CHARS ANALOG_TOPK) ANALOG_TOPK) = []
   \<and> map nz_analogs_txt
       (filter (\<lambda>n. country n = ''FR'')
          (normalized (\<lambda>s. s) (\<lambda>s. s)
             (to_summarize example_country_topics []
                (save_daily_analogs (\<lambda>a. 0) (\<lambda>a. 0)
                   (run_analog_searches example_search example_embeddings example_today
                      ANALOG_SNIP_CHARS ANALOG_TOPK) ANALOG_TOPK)
                TOP_N CONTEXT_CHARS))) = [''None'']
   \<and> \<lparr>event_date = (2024, 1, 10), country = ''FR'', briefing_text = ''from predictions''\<rparr>
       \<in> set (create_daily_briefings example_json_generator (\<lambda>s. s) (\<lambda>s. s) example_country_topics []
                (save_daily_analogs (\<lambda>a. 0) (\<lambda>a. 0)
                   (run_analog_searches example_search example_embeddings example_today
                      ANALOG_SNIP_CHARS ANALOG_TOPK) ANALOG_TOPK)
                TOP_N CONTEXT_CHARS MAX_TOKENS TEMP)"
proof -
  have z: "\<forall>c \<in> set (fn_similar_to_day example_search example_embeddings
                       (country \<lparr>event_date = (2024, 1, 10), country = ''FR''\<rparr>)
                       (event_date \<lparr>event_date = (2024, 1, 10), country = ''FR''\<rparr>)).
             \<not> event_date c < event_date \<lparr>event_date = (2024, 1, 10), country = ''FR''\<rparr>"
    by code_simp
  have a: "filter (\<lambda>row. same_key row \<lparr>event_date = (2024, 1, 10), country = ''FR''\<rparr>)
     (save_daily_analogs (\<lambda>a. 0) (\<lambda>a. 0)
        (run_analog_searches example_search example_embeddings example_today
           ANALOG_SNIP_CHARS ANALOG_TOPK) ANALOG_TOPK) = []"
    by (rule no_candidates_gives_None[OF z, THEN conjunct2, THEN conjunct2, THEN conjunct1])
  have b: "map nz_analogs_txt
       (filter (\<lambda>n. country n = ''FR'')
          (normalized (\<lambda>s. s) (\<lambda>s. s)
             (to_summarize example_country_topics []
                (save_daily_analogs (\<lambda>a. 0) (\<lambda>a. 0)
                   (run_analog_searches example_search example_embeddings example_today
                      ANALOG_SNIP_CHARS ANALOG_TOPK) ANALOG_TOPK)
                TOP_N CONTEXT_CHARS))) = [''None'']"
    by code_simp
  have c: "\<lparr>event_date = (2024, 1, 10), country = ''FR'', briefing_text = ''from predictions''\<rparr>
       \<in> set (create_daily_briefings example_json_generator (\<lambda>s. s) (\<lambda>s. s) example_country_topics []
                (save_daily_analogs (\<lambda>a. 0) (\<lambda>a. 0)
                   (run_analog_searches example_search example_embeddings example_today
                      ANALOG_SNIP_CHARS ANALOG_TOPK) ANALOG_TOPK)
                TOP_N CONTEXT_CHARS MAX_TOKENS TEMP)"
    by code_simp
  from a b c show ?thesis by (intro conjI)
qed

section \<open>Properties of the Entity Ranker\<close>



lemma set_order_by_desc_ties [simp]: "set (order_by_desc_ties k tie xs) = set xs"
  by (simp add: order_by_desc_ties_def)




















end
